theory Spec2Isabelle
  imports Complex_Main
begin

section \<open>The relational store\<close>

text \<open>
  The handlers of \<^verbatim>\<open>adminController.ts\<close> and of the admin router talk to PostgreSQL
  through \<^verbatim>\<open>pool.query\<close>. The store is modelled as one record of tables, each table a
  list of rows in insertion order. Timestamps are seconds (\<open>int\<close>), row ids are numbers
  (\<open>nat\<close>). The five columns of \<^verbatim>\<open>users\<close> that the update endpoint writes are
  nullable, since an omitted body field is bound as SQL NULL.
\<close>

record users_row =
  u_id :: nat
  u_username :: "string option"
  u_email :: "string option"
  u_subscription_tier :: "string option"
  u_points :: "int option"
  u_current_level :: int
  u_is_admin :: "bool option"
  u_created_at :: int
  u_updated_at :: int

record listings_row =
  l_id :: nat
  l_user_id :: nat
  l_title :: string
  l_description :: string
  l_status :: string
  l_price :: int
  l_category :: string
  l_marketplace_listings :: string
  l_created_at :: int
  l_deleted_at :: "int option"

record marketplace_accounts_row =
  ma_id :: nat
  ma_user_id :: nat
  ma_is_active :: bool

record admin_activity_log_row =
  aal_admin_id :: nat
  aal_action :: string
  aal_details :: int
  aal_ip_address :: string
  aal_created_at :: int

text \<open>Of \<^verbatim>\<open>ebay_listings\<close> only the row count is ever read.\<close>

record database =
  users :: "users_row list"
  listings :: "listings_row list"
  marketplace_accounts :: "marketplace_accounts_row list"
  ebay_listings :: nat
  admin_activity_log :: "admin_activity_log_row list"

subsection \<open>Statements and store failures\<close>

text \<open>
  One tag per \<^verbatim>\<open>pool.query\<close> call site. A call may reject (connection loss, constraint
  violation, malformed parameter): \<open>faults\<close> gives the message of the error thrown at a
  call site, \<open>None\<close> when the store answers. Every handler body is one
  \<^verbatim>\<open>try { ... } catch\<close>, so a rejected call ends the handler in its catch branch.
\<close>

datatype stmt =
  AdminCheck
  | TotalUsers | TotalListings | ConnectedAccounts | EbayListings
  | SubscriptionTiers | RecentUsers | ActiveUsers
  | ListingsByStatus | TopUsers | Revenue | LogActivity
  | UsersPage | UsersCount
  | Signups | ListingsOverTime
  | ActivityRows
  | DashUsers | DashListings | DashStatus | DashPoints
  | AllUsers | OneUser
  | UpdateUser
  | SoftDeleteUserListings | DeleteUserRow
  | AllListings
  | SoftDeleteListing
  | DbCheck | TableSizes
  | UserGrowth | ListingGrowth

type_synonym faults = "stmt \<Rightarrow> string option"

definition rejects :: "faults \<Rightarrow> stmt \<Rightarrow> bool" where
  "rejects fl q = (fl q \<noteq> None)"

subsection \<open>The response envelope\<close>

text \<open>
  \<^verbatim>\<open>{ success, data?, message?, error?, statusCode? }\<close> together with the HTTP status
  (\<^verbatim>\<open>res.json\<close> without \<^verbatim>\<open>res.status\<close> sends 200).
\<close>

record 'a envelope =
  http_status :: nat
  success :: bool
  data :: "'a option"
  message :: "string option"
  error :: "string option"
  statusCode :: "nat option"

text \<open>What a handler leaves behind: the response, the store, the statements it issued.\<close>

record 'a outcome =
  response :: "'a envelope"
  store :: database
  issued :: "stmt list"

section \<open>JavaScript numbers\<close>

subsection \<open>Decimal rendering\<close>

fun show_nat :: "nat \<Rightarrow> string" where
  "show_nat n =
     (if n < 10 then [char_of (48 + n)]
      else show_nat (n div 10) @ [char_of (48 + n mod 10)])"

declare show_nat.simps [simp del]

subsection \<open>Doubles\<close>

text \<open>
  The revenue estimate is computed in binary64 arithmetic. Every operand is finite and
  non-negative, so a double is a pair \<open>(m, e)\<close> standing for \<open>m * 2^e\<close>. Each operation
  computes the exact result and rounds it to 53 significant bits, ties to even. The
  exponent range is not modelled: the operands are row counts, two price literals and 12,
  and no result leaves the range of binary64.
\<close>

type_synonym double = "nat \<times> int"

definition dval :: "double \<Rightarrow> real" where
  "dval d = real (fst d) * 2 powi (snd d)"

fun bitlen :: "nat \<Rightarrow> nat" where
  "bitlen n = (if n = 0 then 0 else Suc (bitlen (n div 2)))"

declare bitlen.simps [simp del]

text \<open>\<open>m / 2^k\<close> rounded to the nearest integer, ties to even.\<close>

definition rshift_rne :: "nat \<Rightarrow> nat \<Rightarrow> nat" where
  "rshift_rne m k =
     (let q = m div 2 ^ k; r = m mod 2 ^ k
      in if 2 * r > 2 ^ k \<or> (2 * r = 2 ^ k \<and> odd q) then q + 1 else q)"

definition round_double :: "nat \<Rightarrow> int \<Rightarrow> double" where
  "round_double m e =
     (let k = bitlen m - 53 in (rshift_rne m k, e + int k))"

definition dmul :: "double \<Rightarrow> double \<Rightarrow> double" where
  "dmul x y = round_double (fst x * fst y) (snd x + snd y)"

definition dadd :: "double \<Rightarrow> double \<Rightarrow> double" where
  "dadd x y =
     (let e = min (snd x) (snd y)
      in round_double (fst x * 2 ^ nat (snd x - e) + fst y * 2 ^ nat (snd y - e)) e)"

text \<open>The Number of a non-negative integer (a parsed \<^verbatim>\<open>COUNT\<close>).\<close>

definition double_of_nat :: "nat \<Rightarrow> double" where
  "double_of_nat n = round_double n 0"

text \<open>The literals \<^verbatim>\<open>4.99\<close>, \<^verbatim>\<open>9.99\<close> and \<^verbatim>\<open>12\<close> as binary64 values.\<close>

definition lit_4_99 :: double where
  "lit_4_99 = (5618240535144694, - 50)"

definition lit_9_99 :: double where
  "lit_9_99 = (5623870034678907, - 49)"

definition lit_12 :: double where
  "lit_12 = (12, 0)"

text \<open>
  \<^verbatim>\<open>Number.prototype.toFixed(2)\<close> for \<open>0 \<le> x < 10^21\<close>: the integer \<open>n\<close> with
  \<open>n / 100\<close> closest to \<open>x\<close> (the larger one on a tie), written with at least three
  digits and a point before the last two. (From \<open>10^21\<close> on JavaScript switches to
  exponent notation, which is not modelled.)
\<close>

definition cents_of :: "double \<Rightarrow> nat" where
  "cents_of d =
     (if 0 \<le> snd d then 100 * fst d * 2 ^ nat (snd d)
      else (200 * fst d + 2 ^ nat (- snd d)) div 2 ^ (nat (- snd d) + 1))"

definition show_cents :: "nat \<Rightarrow> string" where
  "show_cents n =
     (let ds = show_nat n;
          ds' = replicate (3 - length ds) CHR ''0'' @ ds
      in take (length ds' - 2) ds' @ ''.'' @ drop (length ds' - 2) ds')"

definition toFixed2 :: "double \<Rightarrow> string" where
  "toFixed2 d = show_cents (cents_of d)"

definition monthlyRevenue :: "nat \<Rightarrow> nat \<Rightarrow> double" where
  "monthlyRevenue premiumCount premiumPlusCount =
     dadd (dmul (double_of_nat premiumCount) lit_4_99)
          (dmul (double_of_nat premiumPlusCount) lit_9_99)"

definition annualRevenue :: "nat \<Rightarrow> nat \<Rightarrow> double" where
  "annualRevenue premiumCount premiumPlusCount =
     dmul (monthlyRevenue premiumCount premiumPlusCount) lit_12"

subsection \<open>Integer-valued Numbers and \<^verbatim>\<open>parseInt\<close>\<close>

text \<open>
  A string is a list of 8-bit characters, read as the code points below 256.

  The Numbers that \<^verbatim>\<open>parseInt\<close> returns, and those the handlers compute from them by
  subtracting 1 and by multiplying, are NaN, an infinity, or an integer: \<open>Finite neg n\<close>
  is \<open>n\<close>, negated when \<open>neg\<close> holds (\<open>Finite True 0\<close> is the negative zero), for an
  integer \<open>n\<close> that binary64 represents exactly. \<open>Infinity neg\<close> is negative when \<open>neg\<close>
  holds.
\<close>

datatype number = NaN | Infinity bool | Finite bool nat

text \<open>
  The integer that binary64 has for \<open>n\<close>: \<open>n\<close> rounded to 53 significant bits, ties to
  even.
\<close>

definition round_nat :: "nat \<Rightarrow> nat" where
  "round_nat n = (let k = bitlen n - 53 in rshift_rne n k * 2 ^ k)"

text \<open>
  The Number for the integer \<open>n\<close> with the given sign. The largest finite Number is
  \<open>(2^53 - 1) * 2^971\<close>, of 1024 bits; what rounds to \<open>2^1024\<close> is an infinity.
\<close>

definition to_number :: "bool \<Rightarrow> nat \<Rightarrow> number" where
  "to_number neg n =
     (let r = round_nat n in if 1024 < bitlen r then Infinity neg else Finite neg r)"

text \<open>
  The white space and line terminators that \<^verbatim>\<open>parseInt\<close> skips, as far as they lie
  below 256: TAB, LF, VT, FF, CR, SP and NBSP.
\<close>

definition is_ws :: "char \<Rightarrow> bool" where
  "is_ws c =
     (c \<in> {CHR 0x09, CHR 0x0A, CHR 0x0B, CHR 0x0C, CHR 0x0D, CHR '' '', CHR 0xA0})"

definition digit_of :: "char \<Rightarrow> nat option" where
  "digit_of c =
     (let k = of_char c :: nat in
      if 48 \<le> k \<and> k \<le> 57 then Some (k - 48)
      else if 97 \<le> k \<and> k \<le> 122 then Some (k - 87)
      else if 65 \<le> k \<and> k \<le> 90 then Some (k - 55)
      else None)"

definition is_digit :: "nat \<Rightarrow> char \<Rightarrow> bool" where
  "is_digit R c = (case digit_of c of None \<Rightarrow> False | Some d \<Rightarrow> d < R)"

definition digits_val :: "nat \<Rightarrow> string \<Rightarrow> nat" where
  "digits_val R Z = foldl (\<lambda>acc c. acc * R + the (digit_of c)) 0 Z"

text \<open>
  \<^verbatim>\<open>parseInt(string)\<close> with no radix: leading white space is dropped, a sign is read,
  a \<^verbatim>\<open>0x\<close>/\<^verbatim>\<open>0X\<close> prefix selects radix 16, the longest digit prefix is the value and
  an empty digit prefix is NaN. The value becomes the nearest Number, with the sign also
  on a zero. (Past the 20th significant decimal digit the standard lets an
  implementation read zeros; the model reads every digit.)
\<close>

definition parseInt :: "string \<Rightarrow> number" where
  "parseInt inputString =
     (let S = dropWhile is_ws inputString;
          neg = (S \<noteq> [] \<and> hd S = CHR ''-'');
          S1 = (if S \<noteq> [] \<and> (hd S = CHR ''+'' \<or> hd S = CHR ''-'') then tl S else S);
          hex = (take 2 S1 = ''0x'' \<or> take 2 S1 = ''0X'');
          R = (if hex then 16 else 10);
          S2 = (if hex then drop 2 S1 else S1);
          Z = takeWhile (is_digit R) S2
      in if Z = [] then NaN else to_number neg (digits_val R Z))"

text \<open>
  The digits of a Number's string. Among the integers \<open>s * 10^j\<close> that binary64 rounds
  to \<open>x\<close>, JavaScript writes one with the fewest digits in \<open>s\<close>, and of these the one
  nearest to \<open>x\<close> (the one with even \<open>s\<close> when two are as near). With \<open>j\<close> falling from
  the number of digits of \<open>x\<close> less one, the candidates are the multiple of \<open>10^j\<close> just
  below \<open>x\<close> and the next one; \<open>x\<close> itself is the candidate for \<open>j = 0\<close>.
\<close>

primrec shortest_at :: "nat \<Rightarrow> nat \<Rightarrow> nat" where
  "shortest_at x 0 = x"
| "shortest_at x (Suc j) =
     (let p = 10 ^ Suc j;
          lo = x div p * p;
          hi = lo + p;
          lo_ok = (round_nat lo = x);
          hi_ok = (round_nat hi = x)
      in if lo_ok \<and> hi_ok then
           (if x - lo < hi - x then lo
            else if hi - x < x - lo then hi
            else if even (x div p) then lo else hi)
         else if lo_ok then lo
         else if hi_ok then hi
         else shortest_at x j)"

definition shortest :: "nat \<Rightarrow> nat" where
  "shortest x = shortest_at x (length (show_nat x) - 1)"

definition strip_zeros :: "string \<Rightarrow> string" where
  "strip_zeros ds = rev (dropWhile (\<lambda>c. c = CHR ''0'') (rev ds))"

text \<open>
  Up to 21 digits are written out; a longer numeral is written as its digits without
  the trailing zeros, a point after the first of them when there are several, and
  \<^verbatim>\<open>e+\<close> with the number of digits less one. (The numeral of a positive integer
  never consists of zeros only.)
\<close>

definition digits_to_string :: "string \<Rightarrow> string" where
  "digits_to_string ds =
     (if length ds \<le> 21 then ds
      else (case strip_zeros ds of
              [] \<Rightarrow> ''0''
            | d # rest \<Rightarrow>
                d # (if rest = [] then [] else CHR ''.'' # rest)
                @ ''e+'' @ show_nat (length ds - 1)))"

text \<open>
  The string of a Number, as a template literal splices it and as node-postgres sends
  a Number parameter. Both zeros are \<^verbatim>\<open>0\<close>.
\<close>

definition to_string :: "number \<Rightarrow> string" where
  "to_string x =
     (case x of
        NaN \<Rightarrow> ''NaN''
      | Infinity neg \<Rightarrow> (if neg then ''-Infinity'' else ''Infinity'')
      | Finite neg n \<Rightarrow>
          (if n = 0 then ''0''
           else (if neg then ''-'' else []) @ digits_to_string (show_nat (shortest n))))"

text \<open>
  \<^verbatim>\<open>x - y\<close> and \<^verbatim>\<open>x * y\<close> on these Numbers: the exact result rounded to the nearest
  Number. A difference that is zero is the positive zero, unless it is the negative
  zero less the positive one.
\<close>

definition js_sub :: "number \<Rightarrow> number \<Rightarrow> number" where
  "js_sub x y =
     (case (x, y) of
        (NaN, _) \<Rightarrow> NaN
      | (_, NaN) \<Rightarrow> NaN
      | (Infinity s, Infinity t) \<Rightarrow> (if s = t then NaN else Infinity s)
      | (Infinity s, Finite t b) \<Rightarrow> Infinity s
      | (Finite s a, Infinity t) \<Rightarrow> Infinity (\<not> t)
      | (Finite s a, Finite t b) \<Rightarrow>
          (let v = (if s then - int a else int a) - (if t then - int b else int b)
           in if v = 0 then Finite (a = 0 \<and> s \<and> \<not> t) 0
              else to_number (v < 0) (nat \<bar>v\<bar>)))"

definition js_mul :: "number \<Rightarrow> number \<Rightarrow> number" where
  "js_mul x y =
     (case (x, y) of
        (NaN, _) \<Rightarrow> NaN
      | (_, NaN) \<Rightarrow> NaN
      | (Infinity s, Infinity t) \<Rightarrow> Infinity (s \<noteq> t)
      | (Infinity s, Finite t b) \<Rightarrow> (if b = 0 then NaN else Infinity (s \<noteq> t))
      | (Finite s a, Infinity t) \<Rightarrow> (if a = 0 then NaN else Infinity (s \<noteq> t))
      | (Finite s a, Finite t b) \<Rightarrow> to_number (s \<noteq> t) (a * b))"

text \<open>
  The binary64 quotient \<open>t / l\<close> of two positive integers: the quotient is taken with
  at least 55 bits and one more bit that records a remainder, and then rounded.
\<close>

definition quotient :: "nat \<Rightarrow> nat \<Rightarrow> double" where
  "quotient t l =
     (let s = 55 + bitlen l;
          N = (t * 2 ^ s) div l;
          sticky = (if (t * 2 ^ s) mod l = 0 then 0 else 1)
      in round_double (2 * N + sticky) (- int s - 1))"

definition ceil_double :: "double \<Rightarrow> nat" where
  "ceil_double d =
     (if 0 \<le> snd d then fst d * 2 ^ nat (snd d)
      else (fst d + 2 ^ nat (- snd d) - 1) div 2 ^ nat (- snd d))"

definition floor_double :: "double \<Rightarrow> nat" where
  "floor_double d =
     (if 0 \<le> snd d then fst d * 2 ^ nat (snd d) else fst d div 2 ^ nat (- snd d))"

section \<open>The admin controller (\<^verbatim>\<open>adminController.ts\<close>)\<close>

subsection \<open>The inline admin check\<close>

text \<open>
  \<^verbatim>\<open>SELECT is_admin FROM users WHERE id = $1\<close> followed by
  \<^verbatim>\<open>!adminCheck.rows[0]?.is_admin\<close>: the caller passes when the first row with the
  caller's id carries \<^verbatim>\<open>is_admin = true\<close>; an absent row and a false or NULL flag
  do not pass.
\<close>

definition is_admin_caller :: "database \<Rightarrow> nat \<Rightarrow> bool" where
  "is_admin_caller db userId =
     (case find (\<lambda>u. u_id u = userId) (users db) of
        None \<Rightarrow> False
      | Some u \<Rightarrow> (u_is_admin u = Some True))"

definition forbidden :: "string \<Rightarrow> 'a envelope" where
  "forbidden msg =
     \<lparr>http_status = 403, success = False, data = None, message = None,
      error = Some msg, statusCode = Some 403\<rparr>"

definition failed :: "string \<Rightarrow> 'a envelope" where
  "failed msg =
     \<lparr>http_status = 500, success = False, data = None, message = None,
      error = Some msg, statusCode = Some 500\<rparr>"

definition succeeded :: "'a \<Rightarrow> 'a envelope" where
  "succeeded d =
     \<lparr>http_status = 200, success = True, data = Some d, message = None,
      error = None, statusCode = Some 200\<rparr>"

subsection \<open>\<^verbatim>\<open>getDashboardMetrics\<close>\<close>

record overview =
  totalUsers :: nat
  totalListings :: nat
  connectedAccounts :: nat
  ebayListings :: nat
  recentUsers :: nat
  activeUsers :: nat

record listings_by_status =
  drafts :: nat
  active :: nat
  sold :: nat
  archived :: nat

record revenue =
  r_monthlyRevenue :: string
  r_annualRevenue :: string
  r_premiumUsers :: nat
  r_premiumPlusUsers :: nat

record top_user =
  tu_id :: nat
  tu_username :: "string option"
  tu_email :: "string option"
  tu_subscription_tier :: "string option"
  tu_listing_count :: nat

record metrics =
  m_overview :: overview
  m_subscriptions :: "string \<rightharpoonup> nat"
  m_listings :: listings_by_status
  m_revenue :: revenue
  m_topUsers :: "top_user list"

text \<open>\<^verbatim>\<open>COUNT(*) FILTER (WHERE ...)\<close> and \<^verbatim>\<open>COUNT(*) ... WHERE ...\<close>.\<close>

definition count_where :: "('a \<Rightarrow> bool) \<Rightarrow> 'a list \<Rightarrow> nat" where
  "count_where P rows = length (filter P rows)"

definition days :: "int \<Rightarrow> int" where
  "days n = n * 86400"

text \<open>
  \<^verbatim>\<open>SELECT subscription_tier, COUNT(*) ... GROUP BY subscription_tier\<close>, one row per
  distinct tier, and the \<^verbatim>\<open>reduce\<close> that files each row under its tier as object key
  (a NULL tier under the key \<^verbatim>\<open>null\<close>). Assigning a number to the key \<^verbatim>\<open>__proto__\<close>
  of a plain object does nothing.
\<close>

definition subscription_tier_rows :: "database \<Rightarrow> (string option \<times> nat) list" where
  "subscription_tier_rows db =
     map (\<lambda>t. (t, count_where (\<lambda>u. u_subscription_tier u = t) (users db)))
       (remdups (map u_subscription_tier (users db)))"

definition tier_key :: "string option \<Rightarrow> string" where
  "tier_key t = (case t of None \<Rightarrow> ''null'' | Some s \<Rightarrow> s)"

definition subscriptions_of :: "(string option \<times> nat) list \<Rightarrow> (string \<rightharpoonup> nat)" where
  "subscriptions_of rows =
     foldl (\<lambda>acc row.
              if tier_key (fst row) = ''__proto__'' then acc
              else acc(tier_key (fst row) \<mapsto> snd row))
       Map.empty rows"

text \<open>
  The top-users query: \<^verbatim>\<open>users u LEFT JOIN listings l ON u.id = l.user_id\<close>, grouped by
  user (\<^verbatim>\<open>u.id\<close> is the primary key, so a group is one user row), \<^verbatim>\<open>COUNT(l.id)\<close>,
  ordered by the count descending, first ten. Rows with equal counts keep table order.
\<close>

definition top_user_row :: "database \<Rightarrow> users_row \<Rightarrow> top_user" where
  "top_user_row db u =
     \<lparr>tu_id = u_id u, tu_username = u_username u, tu_email = u_email u,
      tu_subscription_tier = u_subscription_tier u,
      tu_listing_count = count_where (\<lambda>l. l_user_id l = u_id u) (listings db)\<rparr>"

definition top_users :: "database \<Rightarrow> top_user list" where
  "top_users db =
     take 10 (sort_key (\<lambda>r. - int (tu_listing_count r)) (map (top_user_row db) (users db)))"

definition listings_by_status_of :: "database \<Rightarrow> listings_by_status" where
  "listings_by_status_of db =
     \<lparr>drafts = count_where (\<lambda>l. l_status l = ''draft'') (listings db),
      active = count_where (\<lambda>l. l_status l = ''active'') (listings db),
      sold = count_where (\<lambda>l. l_status l = ''sold'') (listings db),
      archived = count_where (\<lambda>l. l_status l = ''archived'') (listings db)\<rparr>"

definition premium_count :: "database \<Rightarrow> nat" where
  "premium_count db = count_where (\<lambda>u. u_subscription_tier u = Some ''premium'') (users db)"

definition premium_plus_count :: "database \<Rightarrow> nat" where
  "premium_plus_count db =
     count_where (\<lambda>u. u_subscription_tier u = Some ''premium_plus'') (users db)"

definition compute_metrics :: "int \<Rightarrow> database \<Rightarrow> metrics" where
  "compute_metrics now db =
     (let premiumCount = premium_count db;
          premiumPlusCount = premium_plus_count db
      in \<lparr>m_overview =
            \<lparr>totalUsers = length (users db),
             totalListings = length (listings db),
             connectedAccounts = count_where ma_is_active (marketplace_accounts db),
             ebayListings = ebay_listings db,
             recentUsers = count_where (\<lambda>u. now - days 7 < u_created_at u) (users db),
             activeUsers =
               length (remdups (map l_user_id
                 (filter (\<lambda>l. now - days 30 < l_created_at l) (listings db))))\<rparr>,
          m_subscriptions = subscriptions_of (subscription_tier_rows db),
          m_listings = listings_by_status_of db,
          m_revenue =
            \<lparr>r_monthlyRevenue = toFixed2 (monthlyRevenue premiumCount premiumPlusCount),
             r_annualRevenue = toFixed2 (annualRevenue premiumCount premiumPlusCount),
             r_premiumUsers = premiumCount,
             r_premiumPlusUsers = premiumPlusCount\<rparr>,
          m_topUsers = top_users db\<rparr>)"

text \<open>
  The seven reads handed to \<^verbatim>\<open>Promise.all\<close> are all issued; the \<^verbatim>\<open>await\<close> throws
  when one of them rejects.
\<close>

definition parallel_reads :: "stmt list" where
  "parallel_reads =
     [TotalUsers, TotalListings, ConnectedAccounts, EbayListings,
      SubscriptionTiers, RecentUsers, ActiveUsers]"

text \<open>
  The audit row of \<^verbatim>\<open>INSERT INTO admin_activity_log (admin_id, action, details,
  ip_address) VALUES ($1, 'view_dashboard', $2, $3)\<close>; \<open>details\<close> is the serialized
  \<^verbatim>\<open>{ timestamp: new Date() }\<close>.
\<close>

definition view_dashboard_row :: "int \<Rightarrow> nat \<Rightarrow> string \<Rightarrow> admin_activity_log_row" where
  "view_dashboard_row now userId ip =
     \<lparr>aal_admin_id = userId, aal_action = ''view_dashboard'', aal_details = now,
      aal_ip_address = ip, aal_created_at = now\<rparr>"

definition getDashboardMetrics ::
  "faults \<Rightarrow> int \<Rightarrow> nat \<Rightarrow> string \<Rightarrow> database \<Rightarrow> metrics outcome" where
  "getDashboardMetrics fl now userId ip db =
     (let err = failed ''Failed to fetch dashboard metrics'' in
      if rejects fl AdminCheck then
        \<lparr>response = err, store = db, issued = [AdminCheck]\<rparr>
      else if \<not> is_admin_caller db userId then
        \<lparr>response = forbidden ''Access denied. Admin privileges required.'',
         store = db, issued = [AdminCheck]\<rparr>
      else if list_ex (rejects fl) parallel_reads then
        \<lparr>response = err, store = db, issued = AdminCheck # parallel_reads\<rparr>
      else if rejects fl ListingsByStatus then
        \<lparr>response = err, store = db,
         issued = AdminCheck # parallel_reads @ [ListingsByStatus]\<rparr>
      else if rejects fl TopUsers then
        \<lparr>response = err, store = db,
         issued = AdminCheck # parallel_reads @ [ListingsByStatus, TopUsers]\<rparr>
      else if rejects fl Revenue then
        \<lparr>response = err, store = db,
         issued = AdminCheck # parallel_reads @ [ListingsByStatus, TopUsers, Revenue]\<rparr>
      else if rejects fl LogActivity then
        \<lparr>response = err, store = db,
         issued = AdminCheck # parallel_reads
                  @ [ListingsByStatus, TopUsers, Revenue, LogActivity]\<rparr>
      else
        \<lparr>response = succeeded (compute_metrics now db),
         store = db\<lparr>admin_activity_log :=
                    admin_activity_log db @ [view_dashboard_row now userId ip]\<rparr>,
         issued = AdminCheck # parallel_reads
                  @ [ListingsByStatus, TopUsers, Revenue, LogActivity]\<rparr>)"

subsection \<open>\<^verbatim>\<open>getUsers\<close>\<close>

text \<open>
  A bound parameter of a statement: a string or a Number, which node-postgres sends as
  its string.
\<close>

datatype param = Text string | Number number

text \<open>
  The statement texts below are the source's template literals with every run of white
  space written as one space.
\<close>

definition users_select :: string where
  "users_select =
     '' SELECT u.id, u.username, u.email, u.subscription_tier, u.points, u.current_level,''
     @ '' u.is_admin, u.created_at, u.updated_at, COUNT(l.id) as listing_count,''
     @ '' COUNT(ma.id) as connected_accounts FROM users u''
     @ '' LEFT JOIN listings l ON u.id = l.user_id''
     @ '' LEFT JOIN marketplace_accounts ma ON u.id = ma.user_id AND ma.is_active = true''
     @ '' WHERE 1=1 ''"

text \<open>
  The page query as the handler assembles it: the text grows by one clause per non-empty
  filter, and the filter values go to \<open>params\<close>. A non-empty string is truthy.
\<close>

definition users_page_query :: "string \<Rightarrow> string \<Rightarrow> string \<Rightarrow> string \<Rightarrow> string \<times> param list" where
  "users_page_query page limit search tier =
     (let offset = js_mul (js_sub (parseInt page) (Finite False 1)) (parseInt limit);
          query = users_select;
          params = [];
          paramIndex = (1::nat);
          (query, params, paramIndex) =
            (if search \<noteq> [] then
               (query @ '' AND (u.username ILIKE $'' @ show_nat paramIndex
                      @ '' OR u.email ILIKE $'' @ show_nat (paramIndex + 1) @ '')'',
                params @ [Text (''%'' @ search @ ''%''), Text (''%'' @ search @ ''%'')],
                paramIndex + 2)
             else (query, params, paramIndex));
          (query, params, paramIndex) =
            (if tier \<noteq> [] then
               (query @ '' AND u.subscription_tier = $'' @ show_nat paramIndex,
                params @ [Text tier],
                paramIndex + 1)
             else (query, params, paramIndex));
          query = query @ '' GROUP BY u.id ORDER BY u.created_at DESC LIMIT $''
                  @ show_nat paramIndex @ '' OFFSET $'' @ show_nat (paramIndex + 1);
          params = params @ [Number (parseInt limit), Number offset]
      in (query, params))"

definition users_count_query :: "string \<Rightarrow> string \<Rightarrow> string \<times> param list" where
  "users_count_query search tier =
     (let countQuery = ''SELECT COUNT(*) FROM users WHERE 1=1'';
          countParams = [];
          countParamIndex = (1::nat);
          (countQuery, countParams, countParamIndex) =
            (if search \<noteq> [] then
               (countQuery @ '' AND (username ILIKE $'' @ show_nat countParamIndex
                      @ '' OR email ILIKE $'' @ show_nat (countParamIndex + 1) @ '')'',
                countParams @ [Text (''%'' @ search @ ''%''), Text (''%'' @ search @ ''%'')],
                countParamIndex + 2)
             else (countQuery, countParams, countParamIndex));
          (countQuery, countParams) =
            (if tier \<noteq> [] then
               (countQuery @ '' AND subscription_tier = $'' @ show_nat countParamIndex,
                countParams @ [Text tier])
             else (countQuery, countParams))
      in (countQuery, countParams))"

text \<open>
  \<^verbatim>\<open>LIKE\<close>: \<^verbatim>\<open>%\<close> stands for any run of characters, \<^verbatim>\<open>_\<close> for any one character, a
  backslash takes the next pattern character literally. The first argument is the
  pattern. (A pattern that ends in a lone backslash is an error in PostgreSQL; the
  patterns built here end in \<^verbatim>\<open>%\<close>.)
\<close>

fun like_match :: "string \<Rightarrow> string \<Rightarrow> bool" where
  "like_match [] s = (s = [])"
| "like_match (p # ps) [] = (p = CHR ''%'' \<and> like_match ps [])"
| "like_match (p # ps) (c # cs) =
     (if p = CHR ''%'' then like_match ps (c # cs) \<or> like_match (p # ps) cs
      else if p = CHR ''_'' then like_match ps cs
      else if p = CHR 0x5C then
        (case ps of [] \<Rightarrow> False | e # ps' \<Rightarrow> e = c \<and> like_match ps' cs)
      else p = c \<and> like_match ps cs)"

definition to_lower :: "char \<Rightarrow> char" where
  "to_lower c =
     (let k = of_char c :: nat in if 65 \<le> k \<and> k \<le> 90 then char_of (k + 32) else c)"

text \<open>\<^verbatim>\<open>subject ILIKE pattern\<close> on a nullable column: NULL never matches.\<close>

definition ilike :: "string option \<Rightarrow> string \<Rightarrow> bool" where
  "ilike subject pattern =
     (case subject of
        None \<Rightarrow> False
      | Some s \<Rightarrow> like_match (map to_lower pattern) (map to_lower s))"

definition matches_search :: "string \<Rightarrow> users_row \<Rightarrow> bool" where
  "matches_search search u =
     (ilike (u_username u) (''%'' @ search @ ''%'') \<or> ilike (u_email u) (''%'' @ search @ ''%''))"

definition users_where :: "string \<Rightarrow> string \<Rightarrow> users_row \<Rightarrow> bool" where
  "users_where search tier u =
     ((search = [] \<or> matches_search search u)
      \<and> (tier = [] \<or> u_subscription_tier u = Some tier))"

text \<open>A left join keeps the left row once, with no partner, when nothing matches.\<close>

definition left_join :: "'a list \<Rightarrow> 'a option list" where
  "left_join partners = (if partners = [] then [None] else map Some partners)"

text \<open>
  The joined rows of one user in
  \<^verbatim>\<open>users u LEFT JOIN listings l ON u.id = l.user_id LEFT JOIN marketplace_accounts ma
  ON u.id = ma.user_id AND ma.is_active = true\<close>: every listing partner paired with
  every account partner.
\<close>

definition user_join_rows ::
  "database \<Rightarrow> users_row \<Rightarrow> (listings_row option \<times> marketplace_accounts_row option) list" where
  "user_join_rows db u =
     List.product
       (left_join (filter (\<lambda>l. l_user_id l = u_id u) (listings db)))
       (left_join (filter (\<lambda>ma. ma_user_id ma = u_id u \<and> ma_is_active ma)
                     (marketplace_accounts db)))"

record user_summary =
  us_user :: users_row
  listing_count :: nat
  connected_accounts :: nat

text \<open>
  \<^verbatim>\<open>GROUP BY u.id\<close> with \<^verbatim>\<open>COUNT(l.id)\<close> and \<^verbatim>\<open>COUNT(ma.id)\<close>: a count of the group's
  joined rows in which the column is not NULL.
\<close>

definition user_summary_row :: "database \<Rightarrow> users_row \<Rightarrow> user_summary" where
  "user_summary_row db u =
     \<lparr>us_user = u,
      listing_count = count_where (\<lambda>r. fst r \<noteq> None) (user_join_rows db u),
      connected_accounts = count_where (\<lambda>r. snd r \<noteq> None) (user_join_rows db u)\<rparr>"

definition users_page_rows ::
  "database \<Rightarrow> string \<Rightarrow> string \<Rightarrow> nat \<Rightarrow> nat \<Rightarrow> user_summary list" where
  "users_page_rows db search tier lmt off =
     take lmt (drop off
       (sort_key (\<lambda>r. - u_created_at (us_user r))
          (map (user_summary_row db) (filter (users_where search tier) (users db)))))"

text \<open>
  PostgreSQL reads a \<^verbatim>\<open>LIMIT\<close> or \<^verbatim>\<open>OFFSET\<close> parameter as a \<^verbatim>\<open>bigint\<close>: it rejects
  the strings of NaN and of the infinities, a numeral of \<open>2^63\<close> or more (exponent
  notation begins far beyond), and a negative bound.
\<close>

definition bad_bound :: "number \<Rightarrow> bool" where
  "bad_bound x =
     (case x of Finite neg n \<Rightarrow> (neg \<and> n \<noteq> 0) \<or> 63 < bitlen n | _ \<Rightarrow> True)"

definition magnitude :: "number \<Rightarrow> nat" where
  "magnitude x = (case x of Finite neg n \<Rightarrow> n | _ \<Rightarrow> 0)"

record pagination =
  p_page :: number
  p_limit :: number
  p_total :: nat
  p_totalPages :: number

text \<open>
  \<^verbatim>\<open>Math.ceil(total / limit)\<close>, where \<open>total\<close> is the Number of the count: the binary64
  quotient, rounded up to an integer. (JSON writes NaN and the infinities as
  \<^verbatim>\<open>null\<close>.)
\<close>

definition total_pages :: "nat \<Rightarrow> number \<Rightarrow> number" where
  "total_pages tot lmt =
     (let t = round_nat tot in
      case lmt of
        NaN \<Rightarrow> NaN
      | Infinity neg \<Rightarrow> Finite neg 0
      | Finite neg l \<Rightarrow>
          (if l = 0 then (if t = 0 then NaN else Infinity neg)
           else if t = 0 then Finite neg 0
           else if neg then Finite True (floor_double (quotient t l))
           else Finite False (ceil_double (quotient t l))))"

record users_data =
  ud_users :: "user_summary list"
  ud_pagination :: pagination

definition q_default :: "string \<Rightarrow> string option \<Rightarrow> string" where
  "q_default d q = (case q of None \<Rightarrow> d | Some s \<Rightarrow> s)"

definition getUsers ::
  "faults \<Rightarrow> nat \<Rightarrow> string option \<Rightarrow> string option \<Rightarrow> string option \<Rightarrow> string option
     \<Rightarrow> database \<Rightarrow> users_data outcome" where
  "getUsers fl userId q_page q_limit q_search q_tier db =
     (let page = q_default ''1'' q_page;
          limit = q_default ''50'' q_limit;
          search = q_default [] q_search;
          tier = q_default [] q_tier;
          err = failed ''Failed to fetch users'';
          offset = js_mul (js_sub (parseInt page) (Finite False 1)) (parseInt limit)
      in if rejects fl AdminCheck then
           \<lparr>response = err, store = db, issued = [AdminCheck]\<rparr>
         else if \<not> is_admin_caller db userId then
           \<lparr>response = forbidden ''Access denied'', store = db, issued = [AdminCheck]\<rparr>
         else if rejects fl UsersPage \<or> bad_bound (parseInt limit) \<or> bad_bound offset then
           \<lparr>response = err, store = db, issued = [AdminCheck, UsersPage]\<rparr>
         else if rejects fl UsersCount then
           \<lparr>response = err, store = db, issued = [AdminCheck, UsersPage, UsersCount]\<rparr>
         else
           (let tot = count_where (users_where search tier) (users db) in
            \<lparr>response = succeeded
               \<lparr>ud_users = users_page_rows db search tier
                              (magnitude (parseInt limit)) (magnitude offset),
                ud_pagination =
                  \<lparr>p_page = parseInt page, p_limit = parseInt limit, p_total = tot,
                   p_totalPages = total_pages tot (parseInt limit)\<rparr>\<rparr>,
             store = db, issued = [AdminCheck, UsersPage, UsersCount]\<rparr>))"

subsection \<open>\<^verbatim>\<open>getSystemStats\<close>\<close>

text \<open>
  Both statements splice \<^verbatim>\<open>${parseInt(days as string)}\<close> into the text. PostgreSQL
  reads the number of days of an interval as a 32-bit integer: it rejects
  \<^verbatim>\<open>INTERVAL 'NaN days'\<close>, the infinities and a numeral of \<open>2^31\<close> or more, signed or
  not (exponent notation begins far beyond). A smaller number of days that takes
  \<^verbatim>\<open>NOW()\<close> out of the range of timestamps makes the statement fail as well; that
  failure is among those that \<open>faults\<close> stands for.
\<close>

definition bad_days :: "number \<Rightarrow> bool" where
  "bad_days x = (case x of Finite neg n \<Rightarrow> 31 < bitlen n | _ \<Rightarrow> True)"

definition int_of :: "number \<Rightarrow> int" where
  "int_of x = (case x of Finite neg n \<Rightarrow> (if neg then - int n else int n) | _ \<Rightarrow> 0)"

definition signups_query :: "string \<Rightarrow> string" where
  "signups_query days_s =
     '' SELECT DATE(created_at) as date, COUNT(*) as count FROM users''
     @ '' WHERE created_at > NOW() - INTERVAL '' @ [CHR 0x27]
     @ to_string (parseInt days_s) @ '' days'' @ [CHR 0x27]
     @ '' GROUP BY DATE(created_at) ORDER BY date DESC ''"

definition listings_over_time_query :: "string \<Rightarrow> string" where
  "listings_over_time_query days_s =
     '' SELECT DATE(created_at) as date, COUNT(*) as count FROM listings''
     @ '' WHERE created_at > NOW() - INTERVAL '' @ [CHR 0x27]
     @ to_string (parseInt days_s) @ '' days'' @ [CHR 0x27]
     @ '' GROUP BY DATE(created_at) ORDER BY date DESC ''"

text \<open>\<^verbatim>\<open>GROUP BY DATE(created_at) ORDER BY date DESC\<close>: one row per day, newest first.\<close>

definition per_day :: "int list \<Rightarrow> (int \<times> nat) list" where
  "per_day created =
     (let dates = map (\<lambda>t. t div 86400) created
      in map (\<lambda>d. (d, count_where (\<lambda>x. x = d) dates)) (rev (sort (remdups dates))))"

record stats_data =
  sd_signups :: "(int \<times> nat) list"
  sd_listings :: "(int \<times> nat) list"

definition getSystemStats ::
  "faults \<Rightarrow> int \<Rightarrow> nat \<Rightarrow> string option \<Rightarrow> database \<Rightarrow> stats_data outcome" where
  "getSystemStats fl now userId q_days db =
     (let days_s = q_default ''30'' q_days;
          err = failed ''Failed to fetch system stats''
      in if rejects fl AdminCheck then
           \<lparr>response = err, store = db, issued = [AdminCheck]\<rparr>
         else if \<not> is_admin_caller db userId then
           \<lparr>response = forbidden ''Access denied'', store = db, issued = [AdminCheck]\<rparr>
         else if rejects fl Signups \<or> bad_days (parseInt days_s) then
           \<lparr>response = err, store = db, issued = [AdminCheck, Signups]\<rparr>
         else if rejects fl ListingsOverTime then
           \<lparr>response = err, store = db, issued = [AdminCheck, Signups, ListingsOverTime]\<rparr>
         else
           (let since = now - days (int_of (parseInt days_s)) in
            \<lparr>response = succeeded
               \<lparr>sd_signups =
                  per_day (filter (\<lambda>t. since < t) (map u_created_at (users db))),
                sd_listings =
                  per_day (filter (\<lambda>t. since < t) (map l_created_at (listings db)))\<rparr>,
             store = db, issued = [AdminCheck, Signups, ListingsOverTime]\<rparr>))"

subsection \<open>\<^verbatim>\<open>getAdminActivity\<close>\<close>

record activity_row =
  ar_action :: string
  ar_details :: int
  ar_ip_address :: string
  ar_created_at :: int
  ar_username :: "string option"
  ar_email :: "string option"

text \<open>
  \<^verbatim>\<open>admin_activity_log aal JOIN users u ON aal.admin_id = u.id ORDER BY aal.created_at
  DESC LIMIT $1\<close>.
\<close>

definition activity_rows :: "database \<Rightarrow> nat \<Rightarrow> activity_row list" where
  "activity_rows db lmt =
     take lmt (sort_key (\<lambda>r. - ar_created_at r)
       (concat (map (\<lambda>a.
          map (\<lambda>u. \<lparr>ar_action = aal_action a, ar_details = aal_details a,
                     ar_ip_address = aal_ip_address a, ar_created_at = aal_created_at a,
                     ar_username = u_username u, ar_email = u_email u\<rparr>)
            (filter (\<lambda>u. u_id u = aal_admin_id a) (users db)))
          (admin_activity_log db))))"

definition getAdminActivity ::
  "faults \<Rightarrow> nat \<Rightarrow> string option \<Rightarrow> database \<Rightarrow> (activity_row list) outcome" where
  "getAdminActivity fl userId q_limit db =
     (let limit = q_default ''50'' q_limit;
          err = failed ''Failed to fetch admin activity''
      in if rejects fl AdminCheck then
           \<lparr>response = err, store = db, issued = [AdminCheck]\<rparr>
         else if \<not> is_admin_caller db userId then
           \<lparr>response = forbidden ''Access denied'', store = db, issued = [AdminCheck]\<rparr>
         else if rejects fl ActivityRows \<or> bad_bound (parseInt limit) then
           \<lparr>response = err, store = db, issued = [AdminCheck, ActivityRows]\<rparr>
         else
           \<lparr>response = succeeded (activity_rows db (magnitude (parseInt limit))),
            store = db, issued = [AdminCheck, ActivityRows]\<rparr>)"

section \<open>The admin router\<close>

text \<open>
  Every route of the router names the \<^verbatim>\<open>authenticate\<close> and \<^verbatim>\<open>isAdmin\<close> middleware
  before its handler. The handlers come first: they are what runs once both have let
  the request through. A handler answers 200 through \<^verbatim>\<open>res.json\<close>; its catch branch
  answers 500 and forwards \<^verbatim>\<open>error.message\<close>. The routes, with the gate in front of
  the handlers, follow.
\<close>

definition r_ok :: "'a option \<Rightarrow> string option \<Rightarrow> 'a envelope" where
  "r_ok d msg =
     \<lparr>http_status = 200, success = True, data = d, message = msg,
      error = None, statusCode = None\<rparr>"

definition r_not_found :: "string \<Rightarrow> 'a envelope" where
  "r_not_found msg =
     \<lparr>http_status = 404, success = False, data = None, message = Some msg,
      error = None, statusCode = None\<rparr>"

definition r_failed :: "string \<Rightarrow> string option \<Rightarrow> 'a envelope" where
  "r_failed msg error_message =
     \<lparr>http_status = 500, success = False, data = None, message = Some msg,
      error = error_message, statusCode = None\<rparr>"

subsection \<open>\<^verbatim>\<open>GET /dashboard\<close>\<close>

record dashboard_data =
  d_totalUsers :: nat
  d_totalListings :: nat
  activeListings :: nat
  draftListings :: nat
  publishedListings :: nat
  totalPoints :: int
  avgListingsPerUser :: rat

definition undeleted :: "listings_row \<Rightarrow> bool" where
  "undeleted l = (l_deleted_at l = None)"

text \<open>
  \<^verbatim>\<open>SELECT status, COUNT(*) as count FROM listings WHERE deleted_at IS NULL GROUP BY
  status\<close>: one row per status that occurs.
\<close>

definition status_rows :: "database \<Rightarrow> (string \<times> nat) list" where
  "status_rows db =
     (let live = filter undeleted (listings db)
      in map (\<lambda>s. (s, count_where (\<lambda>l. l_status l = s) live)) (remdups (map l_status live)))"

text \<open>
  The body of \<^verbatim>\<open>statusResult.rows.forEach\<close> on the three counters
  \<open>(activeListings, draftListings, publishedListings)\<close>.
\<close>

definition status_step :: "nat \<times> nat \<times> nat \<Rightarrow> string \<times> nat \<Rightarrow> nat \<times> nat \<times> nat" where
  "status_step acc row =
     (case acc of (a, d, p) \<Rightarrow>
        (if fst row = ''active'' then snd row else a,
         if fst row = ''draft'' then snd row else d,
         if fst row = ''published'' then snd row else p))"

text \<open>
  \<^verbatim>\<open>parseInt(SUM(points)) || 0\<close>: the sum of the points that are not NULL, and 0 when
  there are none. The average is a quotient of two counts; JSON carries its nearest
  double.
\<close>

definition dashboard_of :: "database \<Rightarrow> dashboard_data" where
  "dashboard_of db =
     (let totalUsers = length (users db);
          totalListings = count_where undeleted (listings db);
          (activeListings, draftListings, publishedListings) =
             foldl status_step (0, 0, 0) (status_rows db);
          totalPoints =
             sum_list (map (\<lambda>u. case u_points u of None \<Rightarrow> 0 | Some p \<Rightarrow> p) (users db))
      in \<lparr>d_totalUsers = totalUsers,
          d_totalListings = totalListings,
          activeListings = activeListings,
          draftListings = draftListings,
          publishedListings = publishedListings,
          totalPoints = totalPoints,
          avgListingsPerUser =
            (if totalUsers > 0 then of_nat totalListings / of_nat totalUsers else 0)\<rparr>)"

definition dashboard :: "faults \<Rightarrow> database \<Rightarrow> dashboard_data outcome" where
  "dashboard fl db =
     (let err = r_failed ''Failed to fetch dashboard stats'' in
      if rejects fl DashUsers then
        \<lparr>response = err (fl DashUsers), store = db, issued = [DashUsers]\<rparr>
      else if rejects fl DashListings then
        \<lparr>response = err (fl DashListings), store = db, issued = [DashUsers, DashListings]\<rparr>
      else if rejects fl DashStatus then
        \<lparr>response = err (fl DashStatus), store = db,
         issued = [DashUsers, DashListings, DashStatus]\<rparr>
      else if rejects fl DashPoints then
        \<lparr>response = err (fl DashPoints), store = db,
         issued = [DashUsers, DashListings, DashStatus, DashPoints]\<rparr>
      else
        \<lparr>response = r_ok (Some (dashboard_of db)) None, store = db,
         issued = [DashUsers, DashListings, DashStatus, DashPoints]\<rparr>)"

subsection \<open>\<^verbatim>\<open>GET /users\<close> and \<^verbatim>\<open>GET /users/:id\<close>\<close>

record all_users_data =
  au_users :: "users_row list"
  au_total :: nat

text \<open>\<^verbatim>\<open>SELECT ... FROM users ORDER BY created_at DESC\<close>.\<close>

definition all_users :: "database \<Rightarrow> users_row list" where
  "all_users db = sort_key (\<lambda>u. - u_created_at u) (users db)"

definition get_users :: "faults \<Rightarrow> database \<Rightarrow> all_users_data outcome" where
  "get_users fl db =
     (if rejects fl AllUsers then
        \<lparr>response = r_failed ''Failed to fetch users'' (fl AllUsers),
         store = db, issued = [AllUsers]\<rparr>
      else
        \<lparr>response =
           r_ok (Some \<lparr>au_users = all_users db, au_total = length (all_users db)\<rparr>) None,
         store = db, issued = [AllUsers]\<rparr>)"

text \<open>\<^verbatim>\<open>SELECT ... FROM users WHERE id = $1\<close>; the answer carries the first row.\<close>

definition get_user :: "faults \<Rightarrow> nat \<Rightarrow> database \<Rightarrow> users_row outcome" where
  "get_user fl uid db =
     (if rejects fl OneUser then
        \<lparr>response = r_failed ''Failed to fetch user'' (fl OneUser),
         store = db, issued = [OneUser]\<rparr>
      else
        (case filter (\<lambda>u. u_id u = uid) (users db) of
           [] \<Rightarrow>
             \<lparr>response = r_not_found ''User not found'', store = db, issued = [OneUser]\<rparr>
         | row # _ \<Rightarrow>
             \<lparr>response = r_ok (Some row) None, store = db, issued = [OneUser]\<rparr>))"

subsection \<open>\<^verbatim>\<open>PUT /users/:id\<close>\<close>

text \<open>
  The five fields destructured from \<^verbatim>\<open>req.body\<close>; a field the body does not carry is
  \<^verbatim>\<open>undefined\<close> and is bound as NULL.
\<close>

record user_update =
  b_username :: "string option"
  b_email :: "string option"
  b_subscription_tier :: "string option"
  b_points :: "int option"
  b_is_admin :: "bool option"

record user_projection =
  up_id :: nat
  up_username :: "string option"
  up_email :: "string option"
  up_subscription_tier :: "string option"
  up_points :: "int option"
  up_is_admin :: "bool option"

text \<open>
  \<^verbatim>\<open>SET username = $1, email = $2, subscription_tier = $3, points = $4, is_admin = $5,
  updated_at = NOW()\<close> on one row.
\<close>

definition set_user_columns :: "int \<Rightarrow> user_update \<Rightarrow> users_row \<Rightarrow> users_row" where
  "set_user_columns now body u =
     u\<lparr>u_username := b_username body,
       u_email := b_email body,
       u_subscription_tier := b_subscription_tier body,
       u_points := b_points body,
       u_is_admin := b_is_admin body,
       u_updated_at := now\<rparr>"

definition returning_user :: "users_row \<Rightarrow> user_projection" where
  "returning_user u =
     \<lparr>up_id = u_id u, up_username = u_username u, up_email = u_email u,
      up_subscription_tier = u_subscription_tier u, up_points = u_points u,
      up_is_admin = u_is_admin u\<rparr>"

definition update_users :: "int \<Rightarrow> nat \<Rightarrow> user_update \<Rightarrow> database \<Rightarrow> database" where
  "update_users now uid body db =
     db\<lparr>users := map (\<lambda>u. if u_id u = uid then set_user_columns now body u else u) (users db)\<rparr>"

definition put_user ::
  "faults \<Rightarrow> int \<Rightarrow> nat \<Rightarrow> user_update \<Rightarrow> database \<Rightarrow> user_projection outcome" where
  "put_user fl now uid body db =
     (if rejects fl UpdateUser then
        \<lparr>response = r_failed ''Failed to update user'' (fl UpdateUser),
         store = db, issued = [UpdateUser]\<rparr>
      else
        (let db' = update_users now uid body db;
             rows = map returning_user (filter (\<lambda>u. u_id u = uid) (users db'))
         in case rows of
              [] \<Rightarrow>
                \<lparr>response = r_not_found ''User not found'', store = db',
                 issued = [UpdateUser]\<rparr>
            | row # _ \<Rightarrow>
                \<lparr>response = r_ok (Some row) (Some ''User updated successfully''),
                 store = db', issued = [UpdateUser]\<rparr>))"

subsection \<open>\<^verbatim>\<open>DELETE /users/:id\<close>\<close>

text \<open>\<^verbatim>\<open>UPDATE listings SET deleted_at = NOW() WHERE user_id = $1\<close>.\<close>

definition soft_delete_listings_of :: "int \<Rightarrow> nat \<Rightarrow> database \<Rightarrow> database" where
  "soft_delete_listings_of now uid db =
     db\<lparr>listings :=
          map (\<lambda>l. if l_user_id l = uid then l\<lparr>l_deleted_at := Some now\<rparr> else l)
            (listings db)\<rparr>"

text \<open>\<^verbatim>\<open>DELETE FROM users WHERE id = $1 RETURNING id\<close>.\<close>

definition delete_users_row :: "nat \<Rightarrow> database \<Rightarrow> database" where
  "delete_users_row uid db = db\<lparr>users := filter (\<lambda>u. u_id u \<noteq> uid) (users db)\<rparr>"

text \<open>
  The two statements run one after the other on the pool, outside any transaction: when
  the second rejects, the first has already taken effect.
\<close>

definition delete_user :: "faults \<Rightarrow> int \<Rightarrow> nat \<Rightarrow> database \<Rightarrow> unit outcome" where
  "delete_user fl now uid db =
     (if rejects fl SoftDeleteUserListings then
        \<lparr>response = r_failed ''Failed to delete user'' (fl SoftDeleteUserListings),
         store = db, issued = [SoftDeleteUserListings]\<rparr>
      else
        (let db1 = soft_delete_listings_of now uid db in
         if rejects fl DeleteUserRow then
           \<lparr>response = r_failed ''Failed to delete user'' (fl DeleteUserRow),
            store = db1, issued = [SoftDeleteUserListings, DeleteUserRow]\<rparr>
         else
           (let rows = map u_id (filter (\<lambda>u. u_id u = uid) (users db1));
                db2 = delete_users_row uid db1
            in if rows = [] then
                 \<lparr>response = r_not_found ''User not found'', store = db2,
                  issued = [SoftDeleteUserListings, DeleteUserRow]\<rparr>
               else
                 \<lparr>response = r_ok None (Some ''User deleted successfully''), store = db2,
                  issued = [SoftDeleteUserListings, DeleteUserRow]\<rparr>)))"

subsection \<open>\<^verbatim>\<open>GET /listings\<close>\<close>

record listings_data =
  ld_listings :: "listings_row list"
  ld_total :: nat

text \<open>
  \<^verbatim>\<open>SELECT ... FROM listings WHERE deleted_at IS NULL ORDER BY created_at DESC\<close>.
\<close>

definition all_listings :: "database \<Rightarrow> listings_row list" where
  "all_listings db = sort_key (\<lambda>l. - l_created_at l) (filter undeleted (listings db))"

definition get_listings :: "faults \<Rightarrow> database \<Rightarrow> listings_data outcome" where
  "get_listings fl db =
     (if rejects fl AllListings then
        \<lparr>response = r_failed ''Failed to fetch listings'' (fl AllListings),
         store = db, issued = [AllListings]\<rparr>
      else
        \<lparr>response =
           r_ok (Some \<lparr>ld_listings = all_listings db, ld_total = length (all_listings db)\<rparr>)
             None,
         store = db, issued = [AllListings]\<rparr>)"

subsection \<open>\<^verbatim>\<open>DELETE /listings/:id\<close>\<close>

text \<open>\<^verbatim>\<open>UPDATE listings SET deleted_at = NOW() WHERE id = $1 RETURNING id\<close>.\<close>

definition soft_delete_listing :: "int \<Rightarrow> nat \<Rightarrow> database \<Rightarrow> database" where
  "soft_delete_listing now lid db =
     db\<lparr>listings :=
          map (\<lambda>l. if l_id l = lid then l\<lparr>l_deleted_at := Some now\<rparr> else l) (listings db)\<rparr>"

definition delete_listing :: "faults \<Rightarrow> int \<Rightarrow> nat \<Rightarrow> database \<Rightarrow> unit outcome" where
  "delete_listing fl now lid db =
     (if rejects fl SoftDeleteListing then
        \<lparr>response = r_failed ''Failed to delete listing'' (fl SoftDeleteListing),
         store = db, issued = [SoftDeleteListing]\<rparr>
      else
        (let rows = map l_id (filter (\<lambda>l. l_id l = lid) (listings db));
             db' = soft_delete_listing now lid db
         in if rows = [] then
              \<lparr>response = r_not_found ''Listing not found'', store = db',
               issued = [SoftDeleteListing]\<rparr>
            else
              \<lparr>response = r_ok None (Some ''Listing deleted successfully''), store = db',
               issued = [SoftDeleteListing]\<rparr>))"

subsection \<open>\<^verbatim>\<open>GET /system\<close>\<close>

record database_health =
  dh_status :: string
  dh_connected :: bool

record table_sizes =
  ts_users :: nat
  ts_listings :: nat
  ts_marketplace_accounts :: nat

record system_data =
  sy_database :: database_health
  sy_tables :: table_sizes
  sy_uptime :: string

text \<open>
  \<^verbatim>\<open>`${hours}h ${minutes}m`\<close> with \<^verbatim>\<open>Math.floor(uptime / 3600)\<close> and
  \<^verbatim>\<open>Math.floor((uptime % 3600) / 60)\<close>. The argument is \<^verbatim>\<open>process.uptime()\<close> in whole
  seconds; the fraction of a second that the process clock adds is left out.
\<close>

definition uptime_string :: "nat \<Rightarrow> string" where
  "uptime_string uptime =
     show_nat (uptime div 3600) @ ''h '' @ show_nat (uptime mod 3600 div 60) @ ''m''"

text \<open>
  \<^verbatim>\<open>SELECT NOW()\<close> answers with one row, so \<^verbatim>\<open>!!dbCheck.rows[0]\<close> is true. The second
  statement counts the users, the undeleted listings and the marketplace accounts.
\<close>

definition system :: "faults \<Rightarrow> nat \<Rightarrow> database \<Rightarrow> system_data outcome" where
  "system fl uptime db =
     (let err = r_failed ''Failed to fetch system health'' in
      if rejects fl DbCheck then
        \<lparr>response = err (fl DbCheck), store = db, issued = [DbCheck]\<rparr>
      else if rejects fl TableSizes then
        \<lparr>response = err (fl TableSizes), store = db, issued = [DbCheck, TableSizes]\<rparr>
      else
        \<lparr>response =
           r_ok (Some
             \<lparr>sy_database = \<lparr>dh_status = ''healthy'', dh_connected = True\<rparr>,
              sy_tables =
                \<lparr>ts_users = length (users db),
                 ts_listings = count_where undeleted (listings db),
                 ts_marketplace_accounts = length (marketplace_accounts db)\<rparr>,
              sy_uptime = uptime_string uptime\<rparr>) None,
         store = db, issued = [DbCheck, TableSizes]\<rparr>)"

subsection \<open>\<^verbatim>\<open>GET /analytics\<close>\<close>

record analytics_data =
  userGrowth :: "(int \<times> nat) list"
  listingGrowth :: "(int \<times> nat) list"

text \<open>\<^verbatim>\<open>GROUP BY DATE(created_at) ORDER BY date\<close>: one row per day, oldest first.\<close>

definition per_day_ascending :: "int list \<Rightarrow> (int \<times> nat) list" where
  "per_day_ascending created =
     (let dates = map (\<lambda>t. t div 86400) created
      in map (\<lambda>d. (d, count_where (\<lambda>x. x = d) dates)) (sort (remdups dates)))"

text \<open>
  Both statements keep the rows with \<^verbatim>\<open>created_at >= NOW() - INTERVAL '7 days'\<close>; the
  second one keeps undeleted listings only.
\<close>

definition analytics :: "faults \<Rightarrow> int \<Rightarrow> database \<Rightarrow> analytics_data outcome" where
  "analytics fl now db =
     (let err = r_failed ''Failed to fetch analytics'';
          since = now - days 7
      in if rejects fl UserGrowth then
           \<lparr>response = err (fl UserGrowth), store = db, issued = [UserGrowth]\<rparr>
         else if rejects fl ListingGrowth then
           \<lparr>response = err (fl ListingGrowth), store = db,
            issued = [UserGrowth, ListingGrowth]\<rparr>
         else
           \<lparr>response =
              r_ok (Some
                \<lparr>userGrowth =
                   per_day_ascending
                     (filter (\<lambda>t. since \<le> t) (map u_created_at (users db))),
                 listingGrowth =
                   per_day_ascending
                     (filter (\<lambda>t. since \<le> t)
                        (map l_created_at (filter undeleted (listings db))))\<rparr>) None,
            store = db, issued = [UserGrowth, ListingGrowth]\<rparr>)"

subsection \<open>The routes behind the \<^verbatim>\<open>isAdmin\<close> gate\<close>

text \<open>
  Modelled from the spec: the \<^verbatim>\<open>isAdmin\<close> middleware of \<^verbatim>\<open>../middleware/isAdmin\<close>,
  which every route names and which is not among these sources. The spec has it as the
  external gate of the router, the same capability check that the controller makes
  inline: the caller's identity must resolve to a user row with the admin flag true;
  when the row is absent or the flag is false the outcome is Forbidden, a 403 envelope
  with \<^verbatim>\<open>success\<close> false, and nothing is computed. The gate is not a call site of the
  handlers, so it adds nothing to \<open>issued\<close>. The words of its message are not given and
  are a parameter.
\<close>

definition gate_forbidden :: "string \<Rightarrow> 'a envelope" where
  "gate_forbidden msg =
     \<lparr>http_status = 403, success = False, data = None, message = Some msg,
      error = None, statusCode = None\<rparr>"

definition isAdmin :: "string \<Rightarrow> database \<Rightarrow> nat \<Rightarrow> 'a outcome \<Rightarrow> 'a outcome" where
  "isAdmin msg db userId handler =
     (if is_admin_caller db userId then handler
      else \<lparr>response = gate_forbidden msg, store = db, issued = []\<rparr>)"

text \<open>
  The nine routes, \<^verbatim>\<open>router.get('/dashboard', authenticate, isAdmin, ...)\<close> and so on.
  \<^verbatim>\<open>authenticate\<close> supplies \<open>userId\<close>, the identity of the caller.
\<close>

definition route_dashboard ::
  "string \<Rightarrow> faults \<Rightarrow> nat \<Rightarrow> database \<Rightarrow> dashboard_data outcome" where
  "route_dashboard msg fl userId db = isAdmin msg db userId (dashboard fl db)"

definition route_users ::
  "string \<Rightarrow> faults \<Rightarrow> nat \<Rightarrow> database \<Rightarrow> all_users_data outcome" where
  "route_users msg fl userId db = isAdmin msg db userId (get_users fl db)"

definition route_user ::
  "string \<Rightarrow> faults \<Rightarrow> nat \<Rightarrow> nat \<Rightarrow> database \<Rightarrow> users_row outcome" where
  "route_user msg fl userId uid db = isAdmin msg db userId (get_user fl uid db)"

definition route_put_user ::
  "string \<Rightarrow> faults \<Rightarrow> int \<Rightarrow> nat \<Rightarrow> nat \<Rightarrow> user_update \<Rightarrow> database
     \<Rightarrow> user_projection outcome" where
  "route_put_user msg fl now userId uid body db =
     isAdmin msg db userId (put_user fl now uid body db)"

definition route_delete_user ::
  "string \<Rightarrow> faults \<Rightarrow> int \<Rightarrow> nat \<Rightarrow> nat \<Rightarrow> database \<Rightarrow> unit outcome" where
  "route_delete_user msg fl now userId uid db =
     isAdmin msg db userId (delete_user fl now uid db)"

definition route_listings ::
  "string \<Rightarrow> faults \<Rightarrow> nat \<Rightarrow> database \<Rightarrow> listings_data outcome" where
  "route_listings msg fl userId db = isAdmin msg db userId (get_listings fl db)"

definition route_delete_listing ::
  "string \<Rightarrow> faults \<Rightarrow> int \<Rightarrow> nat \<Rightarrow> nat \<Rightarrow> database \<Rightarrow> unit outcome" where
  "route_delete_listing msg fl now userId lid db =
     isAdmin msg db userId (delete_listing fl now lid db)"

definition route_system ::
  "string \<Rightarrow> faults \<Rightarrow> nat \<Rightarrow> nat \<Rightarrow> database \<Rightarrow> system_data outcome" where
  "route_system msg fl uptime userId db = isAdmin msg db userId (system fl uptime db)"

definition route_analytics ::
  "string \<Rightarrow> faults \<Rightarrow> int \<Rightarrow> nat \<Rightarrow> database \<Rightarrow> analytics_data outcome" where
  "route_analytics msg fl now userId db = isAdmin msg db userId (analytics fl now db)"

section \<open>Sample data\<close>

definition no_faults :: faults where
  "no_faults q = None"

definition audit_write_down :: faults where
  "audit_write_down q =
     (if q = LogActivity then Some ''connection terminated unexpectedly'' else None)"

definition admin_check_down :: faults where
  "admin_check_down q =
     (if q = AdminCheck then Some ''connection terminated unexpectedly'' else None)"

definition alice :: users_row where
  "alice =
     \<lparr>u_id = 10, u_username = Some ''alice'', u_email = Some ''alice@example.com'',
      u_subscription_tier = Some ''premium'', u_points = Some 10, u_current_level = 1,
      u_is_admin = Some True, u_created_at = 100, u_updated_at = 100\<rparr>"

definition bob :: users_row where
  "bob =
     \<lparr>u_id = 20, u_username = Some ''bob'', u_email = Some ''Bob@Example.com'',
      u_subscription_tier = Some ''free'', u_points = Some 0, u_current_level = 1,
      u_is_admin = Some False, u_created_at = 200, u_updated_at = 200\<rparr>"

definition listing :: "nat \<Rightarrow> nat \<Rightarrow> string \<Rightarrow> int option \<Rightarrow> listings_row" where
  "listing lid uid status deleted =
     \<lparr>l_id = lid, l_user_id = uid, l_title = ''lamp'', l_description = ''a lamp'',
      l_status = status, l_price = 1500, l_category = ''home'',
      l_marketplace_listings = ''{}'', l_created_at = 300, l_deleted_at = deleted\<rparr>"

text \<open>
  Two users; alice is the admin and owns three listings (one of them soft-deleted at
  time 7) and one active marketplace account.
\<close>

definition shop :: database where
  "shop =
     \<lparr>users = [alice, bob],
      listings = [listing 101 10 ''draft'' None, listing 102 10 ''sold'' (Some 7),
                  listing 103 10 ''sold'' None],
      marketplace_accounts = [\<lparr>ma_id = 5, ma_user_id = 10, ma_is_active = True\<rparr>],
      ebay_listings = 0,
      admin_activity_log = []\<rparr>"

section \<open>Properties of the admin check and the audit write\<close>

lemma is_admin_caller_iff:
  "is_admin_caller db userId \<longleftrightarrow>
     (\<exists>u. find (\<lambda>u. u_id u = userId) (users db) = Some u \<and> u_is_admin u = Some True)"
  by (simp add: is_admin_caller_def split: option.split)

lemma absent_row_not_admin:
  "userId \<notin> u_id ` set (users db) \<Longrightarrow> \<not> is_admin_caller db userId"
  by (auto simp: is_admin_caller_def find_Some_iff split: option.split)

lemma flag_not_true_not_admin:
  "find (\<lambda>u. u_id u = userId) (users db) = Some u \<Longrightarrow> u_is_admin u \<noteq> Some True
     \<Longrightarrow> \<not> is_admin_caller db userId"
  by (simp add: is_admin_caller_def)

lemma shop_admin: "is_admin_caller shop 10"
  by (simp add: is_admin_caller_def shop_def alice_def)

lemma shop_bob_not_admin: "\<not> is_admin_caller shop 20"
  by (simp add: is_admin_caller_def shop_def alice_def bob_def)

lemma shop_stranger_not_admin: "\<not> is_admin_caller shop 99"
  by (simp add: is_admin_caller_def shop_def alice_def bob_def)

lemma audit_write_down_rejects:
  "rejects audit_write_down q \<longleftrightarrow> q = LogActivity"
  by (simp add: rejects_def audit_write_down_def)

lemma no_faults_rejects [simp]: "\<not> rejects no_faults q"
  by (simp add: rejects_def no_faults_def)

lemma failed_not_success [simp]:
  "success (failed msg) = False" "data (failed msg) = None" "http_status (failed msg) = 500"
  by (simp_all add: failed_def)

lemma forbidden_not_success [simp]:
  "success (forbidden msg) = False" "data (forbidden msg) = None"
  "http_status (forbidden msg) = 403" "statusCode (forbidden msg) = Some 403"
  by (simp_all add: forbidden_def)

text \<open>
  C1 (as the code has it). When the audit write of \<^verbatim>\<open>getDashboardMetrics\<close> rejects, the
  request never succeeds and nothing is stored; for an admin caller whose reads were all
  answered, the response is the handler's 500 envelope and the computed metrics are
  dropped.
\<close>

theorem audit_failure_fails_metrics:
  assumes "rejects fl LogActivity"
  shows "success (response (getDashboardMetrics fl now userId ip db)) = False
     \<and> data (response (getDashboardMetrics fl now userId ip db)) = None
     \<and> store (getDashboardMetrics fl now userId ip db) = db
     \<and> (is_admin_caller db userId
          \<and> \<not> list_ex (rejects fl)
                (AdminCheck # parallel_reads @ [ListingsByStatus, TopUsers, Revenue])
        \<longrightarrow> response (getDashboardMetrics fl now userId ip db)
              = failed ''Failed to fetch dashboard metrics'')"
  using assms by (simp add: getDashboardMetrics_def Let_def)

theorem audit_failure_fails_metrics_witness:
  "rejects audit_write_down LogActivity
   \<and> is_admin_caller shop 10
   \<and> response (getDashboardMetrics audit_write_down 400 10 ''10.0.0.1'' shop)
       = failed ''Failed to fetch dashboard metrics''
   \<and> store (getDashboardMetrics audit_write_down 400 10 ''10.0.0.1'' shop) = shop"
  using audit_failure_fails_metrics [of audit_write_down 400 10 "''10.0.0.1''" shop]
  by (simp add: audit_write_down_rejects shop_admin parallel_reads_def)

text \<open>
  C1 (as the claim states it) fails: alice is an admin, every read is answered, the audit
  write rejects, and the response is a 500 without data.
\<close>

theorem audit_failure_counterexample:
  "http_status (response (getDashboardMetrics audit_write_down 400 10 ''10.0.0.1'' shop)) = 500
   \<and> success (response (getDashboardMetrics audit_write_down 400 10 ''10.0.0.1'' shop)) = False
   \<and> data (response (getDashboardMetrics audit_write_down 400 10 ''10.0.0.1'' shop)) = None"
  by (simp add: getDashboardMetrics_def Let_def audit_write_down_rejects shop_admin
      parallel_reads_def)

lemma gate_closed:
  assumes "\<not> is_admin_caller db userId"
  shows "isAdmin msg db userId handler
           = \<lparr>response = gate_forbidden msg, store = db, issued = []\<rparr>"
  using assms by (simp add: isAdmin_def)

text \<open>
  C2. A caller whose user row is absent, or whose admin flag is not true, gets the 403
  envelope from each of the four controller endpoints as soon as the admin check is
  answered. Whether or not it is answered, the endpoint issues no statement but the
  admin check, leaves the store as it was (so no audit row is appended) and never
  answers with success. On each of the nine routes of the router the gate answers such
  a caller with its 403 envelope, \<^verbatim>\<open>success\<close> false; the handler does not run, so no
  statement is issued and the store is as it was.
\<close>

theorem non_admin_is_forbidden:
  assumes "\<not> is_admin_caller db userId"
  shows "(\<not> rejects fl AdminCheck \<longrightarrow>
            response (getDashboardMetrics fl now userId ip db)
              = forbidden ''Access denied. Admin privileges required.''
          \<and> response (getUsers fl userId q_page q_limit q_search q_tier db)
              = forbidden ''Access denied''
          \<and> response (getSystemStats fl now userId q_days db) = forbidden ''Access denied''
          \<and> response (getAdminActivity fl userId q_limit' db) = forbidden ''Access denied'')
     \<and> success (response (getDashboardMetrics fl now userId ip db)) = False
     \<and> success (response (getUsers fl userId q_page q_limit q_search q_tier db)) = False
     \<and> success (response (getSystemStats fl now userId q_days db)) = False
     \<and> success (response (getAdminActivity fl userId q_limit' db)) = False
     \<and> store (getDashboardMetrics fl now userId ip db) = db
     \<and> store (getUsers fl userId q_page q_limit q_search q_tier db) = db
     \<and> store (getSystemStats fl now userId q_days db) = db
     \<and> store (getAdminActivity fl userId q_limit' db) = db
     \<and> issued (getDashboardMetrics fl now userId ip db) = [AdminCheck]
     \<and> issued (getUsers fl userId q_page q_limit q_search q_tier db) = [AdminCheck]
     \<and> issued (getSystemStats fl now userId q_days db) = [AdminCheck]
     \<and> issued (getAdminActivity fl userId q_limit' db) = [AdminCheck]
     \<and> route_dashboard msg fl userId db
         = \<lparr>response = gate_forbidden msg, store = db, issued = []\<rparr>
     \<and> route_users msg fl userId db
         = \<lparr>response = gate_forbidden msg, store = db, issued = []\<rparr>
     \<and> route_user msg fl userId uid db
         = \<lparr>response = gate_forbidden msg, store = db, issued = []\<rparr>
     \<and> route_put_user msg fl now userId uid body db
         = \<lparr>response = gate_forbidden msg, store = db, issued = []\<rparr>
     \<and> route_delete_user msg fl now userId uid db
         = \<lparr>response = gate_forbidden msg, store = db, issued = []\<rparr>
     \<and> route_listings msg fl userId db
         = \<lparr>response = gate_forbidden msg, store = db, issued = []\<rparr>
     \<and> route_delete_listing msg fl now userId lid db
         = \<lparr>response = gate_forbidden msg, store = db, issued = []\<rparr>
     \<and> route_system msg fl uptime userId db
         = \<lparr>response = gate_forbidden msg, store = db, issued = []\<rparr>
     \<and> route_analytics msg fl now userId db
         = \<lparr>response = gate_forbidden msg, store = db, issued = []\<rparr>
     \<and> http_status (response (route_delete_user msg fl now userId uid db)) = 403
     \<and> success (response (route_delete_user msg fl now userId uid db)) = False"
proof -
  have controller: "(\<not> rejects fl AdminCheck \<longrightarrow>
            response (getDashboardMetrics fl now userId ip db)
              = forbidden ''Access denied. Admin privileges required.''
          \<and> response (getUsers fl userId q_page q_limit q_search q_tier db)
              = forbidden ''Access denied''
          \<and> response (getSystemStats fl now userId q_days db) = forbidden ''Access denied''
          \<and> response (getAdminActivity fl userId q_limit' db) = forbidden ''Access denied'')
     \<and> success (response (getDashboardMetrics fl now userId ip db)) = False
     \<and> success (response (getUsers fl userId q_page q_limit q_search q_tier db)) = False
     \<and> success (response (getSystemStats fl now userId q_days db)) = False
     \<and> success (response (getAdminActivity fl userId q_limit' db)) = False
     \<and> store (getDashboardMetrics fl now userId ip db) = db
     \<and> store (getUsers fl userId q_page q_limit q_search q_tier db) = db
     \<and> store (getSystemStats fl now userId q_days db) = db
     \<and> store (getAdminActivity fl userId q_limit' db) = db
     \<and> issued (getDashboardMetrics fl now userId ip db) = [AdminCheck]
     \<and> issued (getUsers fl userId q_page q_limit q_search q_tier db) = [AdminCheck]
     \<and> issued (getSystemStats fl now userId q_days db) = [AdminCheck]
     \<and> issued (getAdminActivity fl userId q_limit' db) = [AdminCheck]"
    using assms
    by (simp add: getDashboardMetrics_def getUsers_def getSystemStats_def
        getAdminActivity_def Let_def)
  note gate = gate_closed [OF assms]
  have router: "route_dashboard msg fl userId db
         = \<lparr>response = gate_forbidden msg, store = db, issued = []\<rparr>
     \<and> route_users msg fl userId db
         = \<lparr>response = gate_forbidden msg, store = db, issued = []\<rparr>
     \<and> route_user msg fl userId uid db
         = \<lparr>response = gate_forbidden msg, store = db, issued = []\<rparr>
     \<and> route_put_user msg fl now userId uid body db
         = \<lparr>response = gate_forbidden msg, store = db, issued = []\<rparr>
     \<and> route_delete_user msg fl now userId uid db
         = \<lparr>response = gate_forbidden msg, store = db, issued = []\<rparr>
     \<and> route_listings msg fl userId db
         = \<lparr>response = gate_forbidden msg, store = db, issued = []\<rparr>
     \<and> route_delete_listing msg fl now userId lid db
         = \<lparr>response = gate_forbidden msg, store = db, issued = []\<rparr>
     \<and> route_system msg fl uptime userId db
         = \<lparr>response = gate_forbidden msg, store = db, issued = []\<rparr>
     \<and> route_analytics msg fl now userId db
         = \<lparr>response = gate_forbidden msg, store = db, issued = []\<rparr>"
    by (simp only: route_dashboard_def route_users_def route_user_def route_put_user_def
        route_delete_user_def route_listings_def route_delete_listing_def route_system_def
        route_analytics_def gate simp_thms)
  have envelope: "http_status (response (route_delete_user msg fl now userId uid db)) = 403
     \<and> success (response (route_delete_user msg fl now userId uid db)) = False"
    by (simp add: route_delete_user_def gate gate_forbidden_def)
  show ?thesis
    by (rule conjI [OF controller conjI [OF router envelope], unfolded conj_assoc])
qed

theorem non_admin_is_forbidden_witness:
  "\<not> is_admin_caller shop 20 \<and> \<not> is_admin_caller shop 99
   \<and> response (getDashboardMetrics no_faults 400 20 ''10.0.0.1'' shop)
       = forbidden ''Access denied. Admin privileges required.''
   \<and> http_status (response (getUsers no_faults 99 None None (Some ''a'') None shop)) = 403
   \<and> success (response (getUsers no_faults 99 None None (Some ''a'') None shop)) = False
   \<and> store (getDashboardMetrics no_faults 400 20 ''10.0.0.1'' shop) = shop
   \<and> issued (getDashboardMetrics no_faults 400 20 ''10.0.0.1'' shop) = [AdminCheck]
   \<and> store (route_delete_user ''Admin access required'' no_faults 400 20 10 shop) = shop
   \<and> http_status (response (route_delete_user ''Admin access required'' no_faults 400 20 10 shop))
       = 403
   \<and> store (route_delete_listing ''Admin access required'' no_faults 400 99 101 shop) = shop
   \<and> issued (route_put_user ''Admin access required'' no_faults 400 20 10
        \<lparr>b_username = Some ''alice'', b_email = Some ''alice@example.com'',
         b_subscription_tier = Some ''free'', b_points = Some 0, b_is_admin = Some False\<rparr>
        shop) = []"
proof -
  note t = non_admin_is_forbidden [OF shop_bob_not_admin,
      of no_faults 400 "''10.0.0.1''" None None None None None None
        "''Admin access required''" 10
        "\<lparr>b_username = Some ''alice'', b_email = Some ''alice@example.com'',
          b_subscription_tier = Some ''free'', b_points = Some 0, b_is_admin = Some False\<rparr>"
        101 0]
  note u = non_admin_is_forbidden [OF shop_stranger_not_admin,
      of no_faults 400 "''10.0.0.1''" None None "Some ''a''" None None None
        "''Admin access required''" 10
        "\<lparr>b_username = None, b_email = None, b_subscription_tier = None,
          b_points = None, b_is_admin = None\<rparr>"
        101 0]
  from t u show ?thesis
    by (simp add: shop_bob_not_admin shop_stranger_not_admin gate_forbidden_def)
qed

section \<open>The users page and its two left joins\<close>

lemma count_where_product_fst:
  "count_where (\<lambda>r. P (fst r)) (List.product xs ys) = count_where P xs * length ys"
  by (induction xs) (simp_all add: count_where_def filter_map comp_def)

lemma count_where_product_snd:
  "count_where (\<lambda>r. P (snd r)) (List.product xs ys) = length xs * count_where P ys"
  by (induction xs) (simp_all add: count_where_def filter_map comp_def)

lemma length_left_join:
  "length (left_join ps) = max 1 (length ps)"
  by (cases ps) (simp_all add: left_join_def)

lemma count_left_join:
  "count_where (\<lambda>x. x \<noteq> None) (left_join ps) = length ps"
  by (simp add: left_join_def count_where_def filter_map comp_def)

text \<open>
  What the two counts of a page row are: each is the true count multiplied by the
  number of partners on the other side, because every listing row of the user is paired
  with every active account row before the rows are counted.
\<close>

lemma user_summary_row_counts:
  "listing_count (user_summary_row db u) =
     count_where (\<lambda>l. l_user_id l = u_id u) (listings db)
     * max 1 (count_where (\<lambda>ma. ma_user_id ma = u_id u \<and> ma_is_active ma)
                (marketplace_accounts db))"
  "connected_accounts (user_summary_row db u) =
     max 1 (count_where (\<lambda>l. l_user_id l = u_id u) (listings db))
     * count_where (\<lambda>ma. ma_user_id ma = u_id u \<and> ma_is_active ma) (marketplace_accounts db)"
proof -
  let ?ls = "filter (\<lambda>l. l_user_id l = u_id u) (listings db)"
  let ?as = "filter (\<lambda>ma. ma_user_id ma = u_id u \<and> ma_is_active ma) (marketplace_accounts db)"
  have "listing_count (user_summary_row db u)
          = count_where (\<lambda>r. (\<lambda>x. x \<noteq> None) (fst r)) (List.product (left_join ?ls) (left_join ?as))"
    by (simp add: user_summary_row_def user_join_rows_def)
  also have "\<dots> = length ?ls * max 1 (length ?as)"
    using count_where_product_fst [of "\<lambda>x. x \<noteq> None" "left_join ?ls" "left_join ?as"]
    by (simp only: count_left_join length_left_join)
  finally show "listing_count (user_summary_row db u) =
     count_where (\<lambda>l. l_user_id l = u_id u) (listings db)
     * max 1 (count_where (\<lambda>ma. ma_user_id ma = u_id u \<and> ma_is_active ma)
                (marketplace_accounts db))"
    by (simp add: count_where_def)
  have "connected_accounts (user_summary_row db u)
          = count_where (\<lambda>r. (\<lambda>x. x \<noteq> None) (snd r)) (List.product (left_join ?ls) (left_join ?as))"
    by (simp add: user_summary_row_def user_join_rows_def)
  also have "\<dots> = max 1 (length ?ls) * length ?as"
    using count_where_product_snd [of "\<lambda>x. x \<noteq> None" "left_join ?ls" "left_join ?as"]
    by (simp only: count_left_join length_left_join)
  finally show "connected_accounts (user_summary_row db u) =
     max 1 (count_where (\<lambda>l. l_user_id l = u_id u) (listings db))
     * count_where (\<lambda>ma. ma_user_id ma = u_id u \<and> ma_is_active ma) (marketplace_accounts db)"
    by (simp add: count_where_def)
qed

text \<open>The default page and limit, and two more.\<close>

lemma parseInt_examples:
  "parseInt ''7'' = Finite False 7" "parseInt ''30'' = Finite False 30"
  "parseInt '' 7 days'' = Finite False 7"
  "parseInt ''1'' = Finite False 1" "parseInt ''50'' = Finite False 50"
  "parseInt ''2'' = Finite False 2" "parseInt ''10'' = Finite False 10"
  by code_simp+

lemma offset_examples:
  "js_mul (js_sub (Finite False 1) (Finite False 1)) (Finite False 50) = Finite False 0"
  "js_mul (js_sub (Finite False 2) (Finite False 1)) (Finite False 10) = Finite False 10"
  "\<not> bad_bound (Finite False 50)" "\<not> bad_bound (Finite False 0)"
  "magnitude (Finite False 50) = 50" "magnitude (Finite False 0) = 0"
  by code_simp+

lemma to_string_examples:
  "to_string (Finite False 7) = ''7''" "to_string (Finite False 30) = ''30''"
  by code_simp+

lemma shop_users_page:
  "ud_users (the (data (response (getUsers no_faults 10 None None None None shop))))
     = users_page_rows shop [] [] 50 0"
  by (simp add: getUsers_def Let_def q_default_def parseInt_examples offset_examples
      succeeded_def shop_admin del: One_nat_def)

lemma shop_users_page_rows:
  "map (\<lambda>r. (u_id (us_user r), listing_count r, connected_accounts r))
     (users_page_rows shop [] [] 50 0) = [(20, 0, 0), (10, 3, 3)]"
  "count_where (\<lambda>l. l_user_id l = 10) (listings shop) = 3"
  "count_where (\<lambda>ma. ma_user_id ma = 10 \<and> ma_is_active ma) (marketplace_accounts shop) = 1"
  by code_simp+

text \<open>
  C3 (where the code departs from it). alice owns three listings and one active
  marketplace account; her row on the users page reports three connected accounts.
  bob, who owns nothing, appears with two zeros.
\<close>

theorem users_page_counts_example:
  "map (\<lambda>r. (u_id (us_user r), listing_count r, connected_accounts r))
     (ud_users (the (data (response (getUsers no_faults 10 None None None None shop)))))
     = [(20, 0, 0), (10, 3, 3)]
   \<and> count_where (\<lambda>l. l_user_id l = 10) (listings shop) = 3
   \<and> count_where (\<lambda>ma. ma_user_id ma = 10 \<and> ma_is_active ma) (marketplace_accounts shop) = 1"
  by (simp only: shop_users_page shop_users_page_rows simp_thms)

section \<open>Properties of the router's writes\<close>

lemma r_envelopes_distinct [simp]:
  "r_not_found m \<noteq> r_ok d m'" "r_ok d m' \<noteq> r_not_found m"
  "r_failed m e \<noteq> r_not_found m''" "r_failed m e \<noteq> r_ok d m'"
  by (simp_all add: r_not_found_def r_ok_def r_failed_def)

lemma filter_id_empty_iff:
  "filter (\<lambda>r. f r = k) rows = [] \<longleftrightarrow> k \<notin> f ` set rows"
  by (auto simp: filter_empty_conv)

lemma map_unless_absent:
  "k \<notin> f ` set rows \<Longrightarrow> map (\<lambda>r. if f r = k then g r else r) rows = rows"
  by (induction rows) auto

subsection \<open>Deleting a listing\<close>

lemma soft_delete_listing_rows:
  "map (\<lambda>l. l\<lparr>l_deleted_at := None\<rparr>) (listings (soft_delete_listing now lid db))
     = map (\<lambda>l. l\<lparr>l_deleted_at := None\<rparr>) (listings db)"
  by (auto simp: soft_delete_listing_def)

lemma soft_delete_listing_marks:
  assumes "l \<in> set (listings (soft_delete_listing now lid db))" and "l_id l = lid"
  shows "l_deleted_at l = Some now"
proof -
  from assms(1) obtain l0 where l0: "l0 \<in> set (listings db)"
    and l: "l = (if l_id l0 = lid then l0\<lparr>l_deleted_at := Some now\<rparr> else l0)"
    by (auto simp: soft_delete_listing_def)
  show ?thesis
  proof (cases "l_id l0 = lid")
    case True
    with l show ?thesis by simp
  next
    case False
    with l assms(2) show ?thesis by simp
  qed
qed

lemma all_listings_undeleted:
  "l \<in> set (all_listings db) \<Longrightarrow> l \<in> set (listings db) \<and> l_deleted_at l = None"
  by (simp add: all_listings_def undeleted_def)

text \<open>
  C4 (as the code has it). When the store answers the \<^verbatim>\<open>UPDATE\<close>, deleting a listing
  keeps every row (the rows before and after agree up to the deletion timestamp), stamps
  the rows with the given id, and answers 404 exactly when no row carries the id, be it
  soft-deleted already or not. The listing query that follows does not return the id.
\<close>

theorem delete_listing_soft_deletes:
  assumes "\<not> rejects fl SoftDeleteListing"
  shows "map (\<lambda>l. l\<lparr>l_deleted_at := None\<rparr>) (listings (store (delete_listing fl now lid db)))
           = map (\<lambda>l. l\<lparr>l_deleted_at := None\<rparr>) (listings db)
     \<and> users (store (delete_listing fl now lid db)) = users db
     \<and> (\<forall>l \<in> set (listings (store (delete_listing fl now lid db))).
           l_id l = lid \<longrightarrow> l_deleted_at l = Some now)
     \<and> (response (delete_listing fl now lid db) = r_not_found ''Listing not found''
          \<longleftrightarrow> lid \<notin> l_id ` set (listings db))
     \<and> (lid \<in> l_id ` set (listings db) \<longrightarrow>
          response (delete_listing fl now lid db)
            = r_ok None (Some ''Listing deleted successfully''))
     \<and> (\<not> rejects fl' AllListings \<longrightarrow>
          lid \<notin> l_id ` set (ld_listings (the (data (response
                   (get_listings fl' (store (delete_listing fl now lid db))))))))"
proof -
  let ?out = "delete_listing fl now lid db"
  have st: "store ?out = soft_delete_listing now lid db"
    using assms by (simp add: delete_listing_def Let_def)
  have rows: "map (\<lambda>l. l\<lparr>l_deleted_at := None\<rparr>) (listings (store ?out))
                = map (\<lambda>l. l\<lparr>l_deleted_at := None\<rparr>) (listings db)"
    by (simp add: st soft_delete_listing_rows)
  have us: "users (store ?out) = users db"
    by (simp add: st soft_delete_listing_def)
  have marks: "\<forall>l \<in> set (listings (store ?out)). l_id l = lid \<longrightarrow> l_deleted_at l = Some now"
    using soft_delete_listing_marks [of _ now lid db] by (simp add: st)
  have nf: "response ?out = r_not_found ''Listing not found'' \<longleftrightarrow> lid \<notin> l_id ` set (listings db)"
    using assms by (simp add: delete_listing_def Let_def filter_id_empty_iff)
  have ok: "lid \<in> l_id ` set (listings db) \<longrightarrow>
              response ?out = r_ok None (Some ''Listing deleted successfully'')"
    using assms by (simp add: delete_listing_def Let_def filter_id_empty_iff)
  have gone: "lid \<notin> l_id ` set (all_listings (store ?out))"
  proof
    assume "lid \<in> l_id ` set (all_listings (store ?out))"
    then obtain l where l: "l \<in> set (all_listings (store ?out))" "l_id l = lid"
      by auto
    from all_listings_undeleted [OF l(1)] have "l \<in> set (listings (store ?out))"
      and "l_deleted_at l = None" by simp_all
    with marks l(2) show False by auto
  qed
  have query: "\<not> rejects fl' AllListings \<longrightarrow>
      lid \<notin> l_id ` set (ld_listings (the (data (response (get_listings fl' (store ?out))))))"
    using gone by (simp add: get_listings_def r_ok_def)
  show ?thesis
    apply (intro conjI)
         apply (rule rows)
        apply (rule us)
       apply (rule marks)
      apply (rule nf)
     apply (rule ok)
    apply (rule query)
    done
qed

theorem delete_listing_soft_deletes_witness:
  "\<not> rejects no_faults SoftDeleteListing
   \<and> map l_id (listings (store (delete_listing no_faults 400 101 shop))) = [101, 102, 103]
   \<and> map l_deleted_at (listings (store (delete_listing no_faults 400 101 shop)))
       = [Some 400, Some 7, None]
   \<and> response (delete_listing no_faults 400 101 shop)
       = r_ok None (Some ''Listing deleted successfully'')
   \<and> response (delete_listing no_faults 400 999 shop) = r_not_found ''Listing not found''
   \<and> map l_id (ld_listings (the (data (response
        (get_listings no_faults (store (delete_listing no_faults 400 101 shop)))))))
       = [103]"
  using delete_listing_soft_deletes [of no_faults 400 101 shop no_faults]
    delete_listing_soft_deletes [of no_faults 400 999 shop no_faults]
  by (simp add: delete_listing_def soft_delete_listing_def get_listings_def all_listings_def
      undeleted_def shop_def listing_def r_ok_def Let_def)

text \<open>
  C4 (as the claim states it) fails: listing 102 was soft-deleted at time 7, so no
  undeleted listing matches the id, yet the delete answers 200 and moves the deletion
  timestamp to 400.
\<close>

theorem delete_listing_counterexample:
  "filter (\<lambda>l. l_id l = 102 \<and> l_deleted_at l = None) (listings shop) = []
   \<and> http_status (response (delete_listing no_faults 400 102 shop)) = 200
   \<and> success (response (delete_listing no_faults 400 102 shop)) = True
   \<and> map l_deleted_at (listings shop) = [None, Some 7, None]
   \<and> map l_deleted_at (listings (store (delete_listing no_faults 400 102 shop)))
       = [None, Some 400, None]"
  by (simp add: delete_listing_def soft_delete_listing_def shop_def listing_def r_ok_def
      Let_def)

subsection \<open>Updating a user\<close>

definition only_points :: user_update where
  "only_points =
     \<lparr>b_username = None, b_email = None, b_subscription_tier = None,
      b_points = Some 5, b_is_admin = None\<rparr>"

definition update_down :: faults where
  "update_down q =
     (if q = UpdateUser then Some ''null value in column violates not-null constraint''
      else None)"

lemma update_users_rows:
  "users (update_users now uid body db)
     = map (\<lambda>u. if u_id u = uid then set_user_columns now body u else u) (users db)"
  "listings (update_users now uid body db) = listings db"
  "marketplace_accounts (update_users now uid body db) = marketplace_accounts db"
  "admin_activity_log (update_users now uid body db) = admin_activity_log db"
  by (simp_all add: update_users_def)

lemma update_users_absent:
  "uid \<notin> u_id ` set (users db) \<Longrightarrow> update_users now uid body db = db"
  by (simp add: update_users_def map_unless_absent)

lemma u_id_set_user_columns [simp]: "u_id (set_user_columns now body u) = u_id u"
  by (simp add: set_user_columns_def)

lemma filter_other_map_if:
  assumes "\<And>r. f (g r) = f r"
  shows "filter (\<lambda>r. f r \<noteq> k) (map (\<lambda>r. if f r = k then g r else r) rows)
           = filter (\<lambda>r. f r \<noteq> k) rows"
  by (induction rows) (simp_all add: assms)

lemma filter_same_map_if:
  assumes "\<And>r. f (g r) = f r"
  shows "filter (\<lambda>r. f r = k) (map (\<lambda>r. if f r = k then g r else r) rows)
           = map g (filter (\<lambda>r. f r = k) rows)"
  by (induction rows) (simp_all add: assms)

lemma map_key_map_if:
  assumes "\<And>r. f (g r) = f r"
  shows "map f (map (\<lambda>r. if f r = k then g r else r) rows) = map f rows"
  by (induction rows) (simp_all add: assms)

lemma update_users_ids:
  "map u_id (users (update_users now uid body db)) = map u_id (users db)"
  unfolding update_users_rows by (rule map_key_map_if) simp

lemma update_users_others:
  "filter (\<lambda>u. u_id u \<noteq> uid) (users (update_users now uid body db))
     = filter (\<lambda>u. u_id u \<noteq> uid) (users db)"
  unfolding update_users_rows by (rule filter_other_map_if) simp

lemma update_users_same:
  "filter (\<lambda>u. u_id u = uid) (users (update_users now uid body db))
     = map (set_user_columns now body) (filter (\<lambda>u. u_id u = uid) (users db))"
  unfolding update_users_rows by (rule filter_same_map_if) simp

lemma update_users_written:
  assumes "u' \<in> set (users (update_users now uid body db))" and "u_id u' = uid"
  shows "\<exists>u \<in> set (users db). u_id u = uid \<and> u' = set_user_columns now body u"
proof -
  from assms(1) obtain u where u: "u \<in> set (users db)"
    and u': "u' = (if u_id u = uid then set_user_columns now body u else u)"
    by (auto simp: update_users_def)
  show ?thesis
  proof (cases "u_id u = uid")
    case True
    with u u' show ?thesis by auto
  next
    case False
    with u' assms(2) show ?thesis by simp
  qed
qed

lemma returning_first_updated:
  assumes "uid \<in> u_id ` set (users db)"
  shows "\<exists>u rest. u_id u = uid
           \<and> map returning_user (filter (\<lambda>u. u_id u = uid) (users (update_users now uid body db)))
               = returning_user (set_user_columns now body u) # rest"
proof -
  from assms have "filter (\<lambda>u. u_id u = uid) (users db) \<noteq> []"
    by (simp add: filter_id_empty_iff)
  then obtain u us where f: "filter (\<lambda>u. u_id u = uid) (users db) = u # us"
    by (cases "filter (\<lambda>u. u_id u = uid) (users db)") simp_all
  then have "u \<in> set (filter (\<lambda>u. u_id u = uid) (users db))"
    by simp
  then have idu: "u_id u = uid"
    by simp
  have rows: "map returning_user
        (filter (\<lambda>u. u_id u = uid) (users (update_users now uid body db)))
      = returning_user (set_user_columns now body u)
        # map returning_user (map (set_user_columns now body) us)"
    by (simp add: update_users_same f)
  show ?thesis
  proof (intro exI conjI)
    show "u_id u = uid" by (rule idu)
    show "map returning_user
        (filter (\<lambda>u. u_id u = uid) (users (update_users now uid body db)))
      = returning_user (set_user_columns now body u)
        # map returning_user (map (set_user_columns now body) us)" by (rule rows)
  qed
qed

text \<open>
  C5 (as the code has it). When the store answers the \<^verbatim>\<open>UPDATE\<close>: every row with the
  given id ends up with all five columns equal to the body's fields, an omitted field
  (\<open>None\<close>) included, and with \<open>updated_at\<close> set to now; the other rows and the ids are
  as before; the response carries the projection of the updated row. When no row carries
  the id the answer is 404 and the store is unchanged.
\<close>

theorem put_user_overwrites_all_fields:
  assumes "\<not> rejects fl UpdateUser"
  shows "(\<forall>u' \<in> set (users (store (put_user fl now uid body db))). u_id u' = uid \<longrightarrow>
            u_username u' = b_username body \<and> u_email u' = b_email body
            \<and> u_subscription_tier u' = b_subscription_tier body
            \<and> u_points u' = b_points body \<and> u_is_admin u' = b_is_admin body
            \<and> u_updated_at u' = now)
     \<and> map u_id (users (store (put_user fl now uid body db))) = map u_id (users db)
     \<and> filter (\<lambda>u. u_id u \<noteq> uid) (users (store (put_user fl now uid body db)))
         = filter (\<lambda>u. u_id u \<noteq> uid) (users db)
     \<and> listings (store (put_user fl now uid body db)) = listings db
     \<and> (uid \<in> u_id ` set (users db) \<longrightarrow>
           response (put_user fl now uid body db)
             = r_ok (Some \<lparr>up_id = uid, up_username = b_username body, up_email = b_email body,
                            up_subscription_tier = b_subscription_tier body,
                            up_points = b_points body, up_is_admin = b_is_admin body\<rparr>)
                 (Some ''User updated successfully''))
     \<and> (uid \<notin> u_id ` set (users db) \<longrightarrow>
           response (put_user fl now uid body db) = r_not_found ''User not found''
           \<and> store (put_user fl now uid body db) = db)"
proof -
  let ?out = "put_user fl now uid body db"
  have st: "store ?out = update_users now uid body db"
    using assms by (simp add: put_user_def Let_def split: list.split)
  have written: "\<forall>u' \<in> set (users (store ?out)). u_id u' = uid \<longrightarrow>
            u_username u' = b_username body \<and> u_email u' = b_email body
            \<and> u_subscription_tier u' = b_subscription_tier body
            \<and> u_points u' = b_points body \<and> u_is_admin u' = b_is_admin body
            \<and> u_updated_at u' = now"
  proof (intro ballI impI)
    fix u' assume "u' \<in> set (users (store ?out))" and "u_id u' = uid"
    then obtain u where "u' = set_user_columns now body u"
      using update_users_written [of u' now uid body db] by (auto simp: st)
    then show "u_username u' = b_username body \<and> u_email u' = b_email body
            \<and> u_subscription_tier u' = b_subscription_tier body
            \<and> u_points u' = b_points body \<and> u_is_admin u' = b_is_admin body
            \<and> u_updated_at u' = now"
      by (simp add: set_user_columns_def)
  qed
  have ids: "map u_id (users (store ?out)) = map u_id (users db)"
    by (simp only: st update_users_ids)
  have others: "filter (\<lambda>u. u_id u \<noteq> uid) (users (store ?out))
                  = filter (\<lambda>u. u_id u \<noteq> uid) (users db)"
    by (simp only: st update_users_others)
  have ls: "listings (store ?out) = listings db"
    by (simp only: st update_users_rows)
  have found: "uid \<in> u_id ` set (users db) \<longrightarrow>
           response ?out
             = r_ok (Some \<lparr>up_id = uid, up_username = b_username body, up_email = b_email body,
                            up_subscription_tier = b_subscription_tier body,
                            up_points = b_points body, up_is_admin = b_is_admin body\<rparr>)
                 (Some ''User updated successfully'')"
  proof
    assume "uid \<in> u_id ` set (users db)"
    from returning_first_updated [OF this, of now body]
    obtain u rest where u: "u_id u = uid"
      and rows: "map returning_user
                   (filter (\<lambda>u. u_id u = uid) (users (update_users now uid body db)))
                 = returning_user (set_user_columns now body u) # rest"
      by auto
    have "response ?out = r_ok (Some (returning_user (set_user_columns now body u)))
                            (Some ''User updated successfully'')"
      using assms rows by (simp add: put_user_def Let_def)
    also have "returning_user (set_user_columns now body u)
                 = \<lparr>up_id = uid, up_username = b_username body, up_email = b_email body,
                    up_subscription_tier = b_subscription_tier body,
                    up_points = b_points body, up_is_admin = b_is_admin body\<rparr>"
      using u by (simp add: returning_user_def set_user_columns_def)
    finally show "response ?out
             = r_ok (Some \<lparr>up_id = uid, up_username = b_username body, up_email = b_email body,
                            up_subscription_tier = b_subscription_tier body,
                            up_points = b_points body, up_is_admin = b_is_admin body\<rparr>)
                 (Some ''User updated successfully'')" .
  qed
  have absent: "uid \<notin> u_id ` set (users db) \<longrightarrow>
           response ?out = r_not_found ''User not found'' \<and> store ?out = db"
  proof
    assume a: "uid \<notin> u_id ` set (users db)"
    then have same: "update_users now uid body db = db"
      by (rule update_users_absent)
    from a have "filter (\<lambda>u. u_id u = uid) (users db) = []"
      by (simp add: filter_id_empty_iff)
    then have "response ?out = r_not_found ''User not found''"
      using assms by (simp add: put_user_def Let_def same)
    then show "response ?out = r_not_found ''User not found'' \<and> store ?out = db"
      by (simp add: st same)
  qed
  show ?thesis
    apply (intro conjI)
         apply (rule written)
        apply (rule ids)
       apply (rule others)
      apply (rule ls)
     apply (rule found)
    apply (rule absent)
    done
qed

theorem put_user_overwrites_all_fields_witness:
  "\<not> rejects no_faults UpdateUser
   \<and> map u_username (users (store (put_user no_faults 400 10 only_points shop)))
       = [None, Some ''bob'']
   \<and> map u_points (users (store (put_user no_faults 400 10 only_points shop)))
       = [Some 5, Some 0]
   \<and> map u_updated_at (users (store (put_user no_faults 400 10 only_points shop)))
       = [400, 200]
   \<and> listings (store (put_user no_faults 400 10 only_points shop)) = listings shop
   \<and> response (put_user no_faults 400 99 only_points shop) = r_not_found ''User not found''
   \<and> store (put_user no_faults 400 99 only_points shop) = shop"
proof -
  have h: "\<not> rejects no_faults UpdateUser"
    by simp
  note t10 = put_user_overwrites_all_fields [OF h, of 400 10 only_points shop]
  note t99 = put_user_overwrites_all_fields [OF h, of 400 99 only_points shop]
  have absent: "99 \<notin> u_id ` set (users shop)"
    by (simp add: shop_def alice_def bob_def)
  have ls: "listings (store (put_user no_faults 400 10 only_points shop)) = listings shop"
    using t10 by (elim conjE)
  have r99: "response (put_user no_faults 400 99 only_points shop) = r_not_found ''User not found''
      \<and> store (put_user no_faults 400 99 only_points shop) = shop"
    using t99 absent by (elim conjE) (erule (1) mp)
  have st: "users (store (put_user no_faults 400 10 only_points shop))
      = [set_user_columns 400 only_points alice, bob]"
    by (simp add: put_user_def update_users_def shop_def alice_def bob_def Let_def
        split: list.split)
  have ev: "map u_username (users (store (put_user no_faults 400 10 only_points shop)))
       = [None, Some ''bob'']
     \<and> map u_points (users (store (put_user no_faults 400 10 only_points shop)))
       = [Some 5, Some 0]
     \<and> map u_updated_at (users (store (put_user no_faults 400 10 only_points shop)))
       = [400, 200]"
    unfolding st by (simp add: set_user_columns_def only_points_def bob_def)
  from h ev ls r99 show ?thesis
    by (intro conjI) (elim conjE, assumption)+
qed

text \<open>
  C5 (as the claim states it) fails: the body carries only \<open>points\<close>. If the store
  accepts the statement, alice's user name, e-mail, tier and admin flag are overwritten
  with NULL although they were not provided; if the store rejects it (a NOT NULL
  column), the answer is 500 and the provided field is not applied either.
\<close>

theorem put_user_counterexample:
  "b_username only_points = None
   \<and> map u_username (users shop) = [Some ''alice'', Some ''bob'']
   \<and> map u_username (users (store (put_user no_faults 400 10 only_points shop)))
       = [None, Some ''bob'']
   \<and> map u_is_admin (users (store (put_user no_faults 400 10 only_points shop)))
       = [None, Some False]
   \<and> http_status (response (put_user no_faults 400 10 only_points shop)) = 200
   \<and> http_status (response (put_user update_down 400 10 only_points shop)) = 500
   \<and> map u_points (users (store (put_user update_down 400 10 only_points shop)))
       = [Some 10, Some 0]"
  by (simp add: put_user_def update_users_def set_user_columns_def only_points_def
      update_down_def rejects_def no_faults_def shop_def alice_def bob_def r_ok_def r_failed_def
      returning_user_def Let_def)

subsection \<open>Deleting a user\<close>

lemma soft_delete_listings_of_frame:
  "users (soft_delete_listings_of now uid db) = users db"
  "map (\<lambda>l. l\<lparr>l_deleted_at := None\<rparr>) (listings (soft_delete_listings_of now uid db))
     = map (\<lambda>l. l\<lparr>l_deleted_at := None\<rparr>) (listings db)"
  by (auto simp: soft_delete_listings_of_def)

lemma soft_delete_listings_of_marks:
  assumes "l \<in> set (listings (soft_delete_listings_of now uid db))" and "l_user_id l = uid"
  shows "l_deleted_at l = Some now"
proof -
  from assms(1) obtain l0 where "l0 \<in> set (listings db)"
    and l: "l = (if l_user_id l0 = uid then l0\<lparr>l_deleted_at := Some now\<rparr> else l0)"
    by (auto simp: soft_delete_listings_of_def)
  show ?thesis
  proof (cases "l_user_id l0 = uid")
    case True
    with l show ?thesis by simp
  next
    case False
    with l assms(2) show ?thesis by simp
  qed
qed

lemma delete_users_row_frame:
  "listings (delete_users_row uid db) = listings db"
  "uid \<notin> u_id ` set (users (delete_users_row uid db))"
  "filter (\<lambda>u. u_id u \<noteq> uid) (users (delete_users_row uid db))
     = filter (\<lambda>u. u_id u \<noteq> uid) (users db)"
  by (auto simp: delete_users_row_def)

text \<open>
  C8. When the store answers both statements, \<^verbatim>\<open>DELETE /users/:id\<close> issues the soft
  delete of the user's listings first and the delete of the user row second. In the
  store between the two statements the user rows are all still there and every listing
  of the user carries the deletion timestamp. In the final store the user row is gone,
  the other user rows are untouched, every listing row is still there and the user's
  listings still carry the timestamp, so the listing query returns none of them. The
  answer is 404 when no user row carries the id and 200 otherwise.
\<close>

theorem delete_user_soft_deletes_listings_first:
  assumes "\<not> rejects fl SoftDeleteUserListings" and "\<not> rejects fl DeleteUserRow"
  shows "issued (delete_user fl now uid db) = [SoftDeleteUserListings, DeleteUserRow]
     \<and> store (delete_user fl now uid db)
         = delete_users_row uid (soft_delete_listings_of now uid db)
     \<and> users (soft_delete_listings_of now uid db) = users db
     \<and> (\<forall>l \<in> set (listings (soft_delete_listings_of now uid db)).
           l_user_id l = uid \<longrightarrow> l_deleted_at l = Some now)
     \<and> uid \<notin> u_id ` set (users (store (delete_user fl now uid db)))
     \<and> filter (\<lambda>u. u_id u \<noteq> uid) (users (store (delete_user fl now uid db)))
         = filter (\<lambda>u. u_id u \<noteq> uid) (users db)
     \<and> map (\<lambda>l. l\<lparr>l_deleted_at := None\<rparr>) (listings (store (delete_user fl now uid db)))
         = map (\<lambda>l. l\<lparr>l_deleted_at := None\<rparr>) (listings db)
     \<and> (\<forall>l \<in> set (listings (store (delete_user fl now uid db))).
           l_user_id l = uid \<longrightarrow> l_deleted_at l = Some now)
     \<and> (\<forall>l \<in> set (all_listings (store (delete_user fl now uid db))). l_user_id l \<noteq> uid)
     \<and> (uid \<notin> u_id ` set (users db) \<longrightarrow>
           response (delete_user fl now uid db) = r_not_found ''User not found'')
     \<and> (uid \<in> u_id ` set (users db) \<longrightarrow>
           response (delete_user fl now uid db)
             = r_ok None (Some ''User deleted successfully''))"
proof -
  let ?out = "delete_user fl now uid db"
  let ?db1 = "soft_delete_listings_of now uid db"
  have iss: "issued ?out = [SoftDeleteUserListings, DeleteUserRow]"
    using assms by (simp add: delete_user_def Let_def)
  have st: "store ?out = delete_users_row uid ?db1"
    using assms by (simp add: delete_user_def Let_def)
  have us1: "users ?db1 = users db"
    by (rule soft_delete_listings_of_frame)
  have marks1: "\<forall>l \<in> set (listings ?db1). l_user_id l = uid \<longrightarrow> l_deleted_at l = Some now"
    using soft_delete_listings_of_marks [of _ now uid db] by blast
  have gone: "uid \<notin> u_id ` set (users (store ?out))"
    by (simp only: st delete_users_row_frame not_False_eq_True)
  have others: "filter (\<lambda>u. u_id u \<noteq> uid) (users (store ?out))
                  = filter (\<lambda>u. u_id u \<noteq> uid) (users db)"
    by (simp only: st delete_users_row_frame us1)
  have ls: "listings (store ?out) = listings ?db1"
    by (simp only: st delete_users_row_frame)
  have rows: "map (\<lambda>l. l\<lparr>l_deleted_at := None\<rparr>) (listings (store ?out))
                = map (\<lambda>l. l\<lparr>l_deleted_at := None\<rparr>) (listings db)"
    by (simp only: ls soft_delete_listings_of_frame)
  have marks2: "\<forall>l \<in> set (listings (store ?out)). l_user_id l = uid \<longrightarrow> l_deleted_at l = Some now"
    using marks1 by (simp only: ls)
  have query: "\<forall>l \<in> set (all_listings (store ?out)). l_user_id l \<noteq> uid"
  proof
    fix l assume "l \<in> set (all_listings (store ?out))"
    from all_listings_undeleted [OF this] have "l \<in> set (listings (store ?out))"
      and "l_deleted_at l = None" by simp_all
    with marks2 show "l_user_id l \<noteq> uid" by auto
  qed
  have nf: "uid \<notin> u_id ` set (users db) \<longrightarrow> response ?out = r_not_found ''User not found''"
    using assms by (simp add: delete_user_def Let_def us1 filter_id_empty_iff)
  have ok: "uid \<in> u_id ` set (users db) \<longrightarrow>
              response ?out = r_ok None (Some ''User deleted successfully'')"
    using assms by (simp add: delete_user_def Let_def us1 filter_id_empty_iff)
  show ?thesis
    apply (intro conjI)
              apply (rule iss)
             apply (rule st)
            apply (rule us1)
           apply (rule marks1)
          apply (rule gone)
         apply (rule others)
        apply (rule rows)
       apply (rule marks2)
      apply (rule query)
     apply (rule nf)
    apply (rule ok)
    done
qed

theorem delete_user_soft_deletes_listings_first_witness:
  "\<not> rejects no_faults SoftDeleteUserListings \<and> \<not> rejects no_faults DeleteUserRow
   \<and> issued (delete_user no_faults 400 10 shop) = [SoftDeleteUserListings, DeleteUserRow]
   \<and> map u_id (users (soft_delete_listings_of 400 10 shop)) = [10, 20]
   \<and> map l_deleted_at (listings (soft_delete_listings_of 400 10 shop))
       = [Some 400, Some 400, Some 400]
   \<and> map u_id (users (store (delete_user no_faults 400 10 shop))) = [20]
   \<and> map l_id (listings (store (delete_user no_faults 400 10 shop))) = [101, 102, 103]
   \<and> map l_deleted_at (listings (store (delete_user no_faults 400 10 shop)))
       = [Some 400, Some 400, Some 400]
   \<and> response (delete_user no_faults 400 10 shop)
       = r_ok None (Some ''User deleted successfully'')
   \<and> response (delete_user no_faults 400 99 shop) = r_not_found ''User not found''"
proof -
  have h1: "\<not> rejects no_faults SoftDeleteUserListings" and h2: "\<not> rejects no_faults DeleteUserRow"
    by simp_all
  note t10 = delete_user_soft_deletes_listings_first [OF h1 h2, of 400 10 shop]
  note t99 = delete_user_soft_deletes_listings_first [OF h1 h2, of 400 99 shop]
  have present: "10 \<in> u_id ` set (users shop)" and absent: "99 \<notin> u_id ` set (users shop)"
    by (simp_all add: shop_def alice_def bob_def)
  have iss: "issued (delete_user no_faults 400 10 shop) = [SoftDeleteUserListings, DeleteUserRow]"
    using t10 by (elim conjE)
  have st: "store (delete_user no_faults 400 10 shop)
              = delete_users_row 10 (soft_delete_listings_of 400 10 shop)"
    using t10 by (elim conjE)
  have ok: "response (delete_user no_faults 400 10 shop)
              = r_ok None (Some ''User deleted successfully'')"
    using t10 present by (elim conjE) (erule (1) mp)
  have nf: "response (delete_user no_faults 400 99 shop) = r_not_found ''User not found''"
    using t99 absent by (elim conjE) (erule (1) mp)
  have db1: "map u_id (users (soft_delete_listings_of 400 10 shop)) = [10, 20]
      \<and> map l_deleted_at (listings (soft_delete_listings_of 400 10 shop))
          = [Some 400, Some 400, Some 400]"
    by (simp add: soft_delete_listings_of_def shop_def alice_def bob_def listing_def)
  have db2: "map u_id (users (store (delete_user no_faults 400 10 shop))) = [20]
      \<and> map l_id (listings (store (delete_user no_faults 400 10 shop))) = [101, 102, 103]
      \<and> map l_deleted_at (listings (store (delete_user no_faults 400 10 shop)))
          = [Some 400, Some 400, Some 400]"
    unfolding st
    by (simp add: soft_delete_listings_of_def delete_users_row_def shop_def alice_def bob_def
        listing_def)
  from h1 h2 iss db1 db2 ok nf show ?thesis
    by (intro conjI) (elim conjE, assumption)+
qed

section \<open>The listing-status breakdown\<close>

definition status_total :: "listings_by_status \<Rightarrow> nat" where
  "status_total b = drafts b + active b + sold b + archived b"

definition dashboard_status_total :: "dashboard_data \<Rightarrow> nat" where
  "dashboard_status_total d = activeListings d + draftListings d + publishedListings d"

lemma count_where_Cons:
  "count_where P (x # xs) = (if P x then 1 else 0) + count_where P xs"
  by (simp add: count_where_def)

lemma count_where_Nil [simp]: "count_where P [] = 0"
  by (simp add: count_where_def)

lemma count_where_le_length: "count_where P xs \<le> length xs"
  by (simp add: count_where_def)

lemma count_where_filter:
  "count_where P (filter Q xs) = count_where (\<lambda>x. Q x \<and> P x) xs"
  by (induction xs) (simp_all add: count_where_Cons)

lemma count_where_mono:
  "(\<And>x. P x \<Longrightarrow> Q x) \<Longrightarrow> count_where P xs \<le> count_where Q xs"
  by (induction xs) (auto simp: count_where_Cons)

lemma count_where_all:
  "(\<And>x. x \<in> set xs \<Longrightarrow> P x) \<Longrightarrow> count_where P xs = length xs"
  by (induction xs) (simp_all add: count_where_Cons)

lemma count_where_absent:
  "k \<notin> f ` set xs \<Longrightarrow> count_where (\<lambda>x. f x = k) xs = 0"
  by (induction xs) (auto simp: count_where_Cons)

lemma count_where_four:
  assumes "distinct [a, b, c, d]"
  shows "count_where (\<lambda>x. f x = a) xs + count_where (\<lambda>x. f x = b) xs
         + count_where (\<lambda>x. f x = c) xs + count_where (\<lambda>x. f x = d) xs
         = count_where (\<lambda>x. f x \<in> {a, b, c, d}) xs"
  using assms by (induction xs) (auto simp: count_where_Cons)

lemma count_where_three:
  assumes "distinct [a, b, c]"
  shows "count_where (\<lambda>x. f x = a) xs + count_where (\<lambda>x. f x = b) xs
         + count_where (\<lambda>x. f x = c) xs
         = count_where (\<lambda>x. f x \<in> {a, b, c}) xs"
  using assms by (induction xs) (auto simp: count_where_Cons)

lemma metrics_status_total:
  "status_total (listings_by_status_of db)
     = count_where (\<lambda>l. l_status l \<in> {''draft'', ''active'', ''sold'', ''archived''})
         (listings db)"
  unfolding status_total_def listings_by_status_of_def
  using count_where_four [of "''draft''" "''active''" "''sold''" "''archived''" l_status
      "listings db"]
  by simp

text \<open>The \<^verbatim>\<open>forEach\<close> over the grouped rows leaves each counter at its status's count.\<close>

lemma foldl_status_step:
  "foldl status_step (a, d, p) (map (\<lambda>s. (s, cnt s)) keys)
     = (if ''active'' \<in> set keys then cnt ''active'' else a,
        if ''draft'' \<in> set keys then cnt ''draft'' else d,
        if ''published'' \<in> set keys then cnt ''published'' else p)"
  by (induction keys arbitrary: a d p) (simp_all add: status_step_def)

lemma status_counters:
  "foldl status_step (0, 0, 0) (status_rows db)
     = (count_where (\<lambda>l. undeleted l \<and> l_status l = ''active'') (listings db),
        count_where (\<lambda>l. undeleted l \<and> l_status l = ''draft'') (listings db),
        count_where (\<lambda>l. undeleted l \<and> l_status l = ''published'') (listings db))"
proof -
  let ?live = "filter undeleted (listings db)"
  let ?cnt = "\<lambda>s. count_where (\<lambda>l. l_status l = s) ?live"
  have zero: "s \<notin> set (remdups (map l_status ?live)) \<Longrightarrow> ?cnt s = 0" for s
    using count_where_absent [of s l_status ?live] by simp
  have "foldl status_step (0, 0, 0) (status_rows db)
          = (?cnt ''active'', ?cnt ''draft'', ?cnt ''published'')"
    unfolding status_rows_def Let_def foldl_status_step
    using zero [of "''active''"] zero [of "''draft''"] zero [of "''published''"]
    by (simp del: set_remdups)
  then show ?thesis
    by (simp only: count_where_filter)
qed

lemma dashboard_counters:
  "activeListings (dashboard_of db)
     = count_where (\<lambda>l. undeleted l \<and> l_status l = ''active'') (listings db)"
  "draftListings (dashboard_of db)
     = count_where (\<lambda>l. undeleted l \<and> l_status l = ''draft'') (listings db)"
  "publishedListings (dashboard_of db)
     = count_where (\<lambda>l. undeleted l \<and> l_status l = ''published'') (listings db)"
  "d_totalListings (dashboard_of db) = count_where undeleted (listings db)"
  by (simp_all add: dashboard_of_def Let_def status_counters)

lemma count_where_three_guarded:
  assumes "distinct [a, b, c]"
  shows "count_where (\<lambda>x. Q x \<and> f x = a) xs + count_where (\<lambda>x. Q x \<and> f x = b) xs
         + count_where (\<lambda>x. Q x \<and> f x = c) xs
         = count_where (\<lambda>x. Q x \<and> f x \<in> {a, b, c}) xs"
  using assms by (induction xs) (auto simp: count_where_Cons)

lemma dashboard_status_total_eq:
  "dashboard_status_total (dashboard_of db)
     = count_where (\<lambda>l. undeleted l \<and> l_status l \<in> {''active'', ''draft'', ''published''})
         (listings db)"
  unfolding dashboard_status_total_def dashboard_counters
  using count_where_three_guarded [of "''active''" "''draft''" "''published''" undeleted
      l_status "listings db"]
  by simp

lemma metrics_data:
  "data (response (getDashboardMetrics fl now userId ip db)) = Some m
     \<Longrightarrow> m = compute_metrics now db"
  by (simp add: getDashboardMetrics_def Let_def succeeded_def split: if_splits)

lemma dashboard_data:
  "data (response (dashboard fl db)) = Some d \<Longrightarrow> d = dashboard_of db"
  by (simp add: dashboard_def Let_def r_ok_def r_failed_def split: if_splits)

text \<open>
  C6 (as the code has it). Both reports carry their fixed status counters (record fields
  of type \<open>nat\<close>, so none is ever missing or negative). In the metrics report the four
  counters add up to the number of listing rows, soft-deleted ones included, whose
  status is one of draft, active, sold, archived; that is at most \<open>totalListings\<close>, which
  counts every listing row. In the router's dashboard the three counters add up to the
  number of undeleted listings whose status is one of active, draft, published; that is
  at most its \<open>totalListings\<close>, the number of undeleted listings.
\<close>

theorem status_breakdown_sums:
  "(data (response (getDashboardMetrics fl now userId ip db)) = Some m \<longrightarrow>
      status_total (m_listings m)
        = count_where (\<lambda>l. l_status l \<in> {''draft'', ''active'', ''sold'', ''archived''})
            (listings db)
      \<and> status_total (m_listings m) \<le> totalListings (m_overview m)
      \<and> totalListings (m_overview m) = length (listings db))
   \<and> (data (response (dashboard fl' db)) = Some d \<longrightarrow>
      dashboard_status_total d
        = count_where (\<lambda>l. l_deleted_at l = None
              \<and> l_status l \<in> {''active'', ''draft'', ''published''}) (listings db)
      \<and> dashboard_status_total d \<le> d_totalListings d
      \<and> d_totalListings d = count_where (\<lambda>l. l_deleted_at l = None) (listings db))"
proof (intro conjI impI)
  assume "data (response (getDashboardMetrics fl now userId ip db)) = Some m"
  then have m: "m = compute_metrics now db"
    by (rule metrics_data)
  have ls: "m_listings m = listings_by_status_of db"
    and tl: "totalListings (m_overview m) = length (listings db)"
    by (simp_all add: m compute_metrics_def Let_def)
  show "status_total (m_listings m)
        = count_where (\<lambda>l. l_status l \<in> {''draft'', ''active'', ''sold'', ''archived''})
            (listings db)"
    by (simp only: ls metrics_status_total)
  show "status_total (m_listings m) \<le> totalListings (m_overview m)"
    by (simp only: ls tl metrics_status_total count_where_le_length)
  show "totalListings (m_overview m) = length (listings db)"
    by (rule tl)
next
  assume "data (response (dashboard fl' db)) = Some d"
  then have d: "d = dashboard_of db"
    by (rule dashboard_data)
  have undel: "undeleted = (\<lambda>l. l_deleted_at l = None)"
    by (simp add: undeleted_def fun_eq_iff)
  show "dashboard_status_total d
        = count_where (\<lambda>l. l_deleted_at l = None
              \<and> l_status l \<in> {''active'', ''draft'', ''published''}) (listings db)"
    by (simp only: d dashboard_status_total_eq) (simp add: undeleted_def)
  show "dashboard_status_total d \<le> d_totalListings d"
    unfolding d dashboard_status_total_eq dashboard_counters
    by (rule count_where_mono) simp
  show "d_totalListings d = count_where (\<lambda>l. l_deleted_at l = None) (listings db)"
    by (simp only: d dashboard_counters) (simp add: undel)
qed

lemma shop_metrics:
  "data (response (getDashboardMetrics no_faults 400 10 ''10.0.0.1'' shop))
     = Some (compute_metrics 400 shop)"
  by (simp add: getDashboardMetrics_def Let_def succeeded_def shop_admin parallel_reads_def)

lemma shop_dashboard:
  "data (response (dashboard no_faults shop)) = Some (dashboard_of shop)"
  by (simp add: dashboard_def Let_def r_ok_def)

lemma shop_listing_counts:
  "count_where (\<lambda>l. l_status l \<in> {''draft'', ''active'', ''sold'', ''archived''})
     (listings shop) = 3"
  "count_where (\<lambda>l. l_deleted_at l = None
       \<and> l_status l \<in> {''active'', ''draft'', ''published''}) (listings shop) = 1"
  "count_where (\<lambda>l. l_deleted_at l = None) (listings shop) = 2"
  "length (listings shop) = 3"
  by (simp_all add: shop_def listing_def count_where_def)

theorem status_breakdown_sums_witness:
  "data (response (getDashboardMetrics no_faults 400 10 ''10.0.0.1'' shop))
     = Some (compute_metrics 400 shop)
   \<and> status_total (m_listings (compute_metrics 400 shop)) = 3
   \<and> totalListings (m_overview (compute_metrics 400 shop)) = 3
   \<and> data (response (dashboard no_faults shop)) = Some (dashboard_of shop)
   \<and> dashboard_status_total (dashboard_of shop) = 1
   \<and> d_totalListings (dashboard_of shop) = 2"
  using status_breakdown_sums [of no_faults 400 10 "''10.0.0.1''" shop
      "compute_metrics 400 shop" no_faults "dashboard_of shop"]
  by (simp only: shop_metrics shop_dashboard shop_listing_counts simp_thms)

text \<open>
  C6 (as the claim states it) fails. The store holds two undeleted listings (a draft and
  a sold one) and one soft-deleted sold listing. The metrics report's counters add up to
  3, the dashboard's to 1; neither is 2.
\<close>

theorem status_breakdown_counterexample:
  "count_where (\<lambda>l. l_deleted_at l = None) (listings shop) = 2
   \<and> status_total (m_listings (the (data (response
        (getDashboardMetrics no_faults 400 10 ''10.0.0.1'' shop))))) = 3
   \<and> dashboard_status_total (the (data (response (dashboard no_faults shop)))) = 1"
proof -
  have ml: "m_listings (compute_metrics 400 shop) = listings_by_status_of shop"
    by (simp add: compute_metrics_def Let_def)
  have m: "status_total (m_listings (compute_metrics 400 shop)) = 3"
    unfolding ml metrics_status_total
    by (simp add: shop_def listing_def count_where_def)
  have d: "dashboard_status_total (dashboard_of shop) = 1"
    unfolding dashboard_status_total_eq
    by (simp add: shop_def listing_def count_where_def undeleted_def)
  show ?thesis
    by (simp add: shop_metrics shop_dashboard shop_listing_counts m d)
qed

section \<open>Properties of the Number model\<close>

text \<open>\<open>bitlen n\<close> is the number of bits of \<open>n\<close>.\<close>

lemma bitlen_upper: "n < 2 ^ bitlen n"
proof (induction n rule: bitlen.induct)
  case (1 n)
  show ?case
  proof (cases "n = 0")
    case True
    then show ?thesis by (subst bitlen.simps) simp
  next
    case False
    from 1 [OF False] have "n div 2 < 2 ^ bitlen (n div 2)" .
    then have "n < 2 * 2 ^ bitlen (n div 2)" by linarith
    with False show ?thesis by (subst bitlen.simps) simp
  qed
qed

lemma bitlen_lower: "0 < n \<Longrightarrow> 2 ^ (bitlen n - 1) \<le> n"
proof (induction n rule: bitlen.induct)
  case (1 n)
  then have n: "n \<noteq> 0" by simp
  have b: "bitlen n = Suc (bitlen (n div 2))"
    using n by (subst bitlen.simps) simp
  show ?case
  proof (cases "n div 2 = 0")
    case True
    then have "bitlen (n div 2) = 0" by (subst bitlen.simps) simp
    with b 1(2) show ?thesis by simp
  next
    case False
    then have pos: "0 < n div 2" by simp
    from 1(1) [OF n pos] have le: "2 ^ (bitlen (n div 2) - 1) \<le> n div 2" .
    from False have "bitlen (n div 2) \<noteq> 0" by (subst bitlen.simps) simp
    then obtain c where c: "bitlen (n div 2) = Suc c" by (cases "bitlen (n div 2)") simp_all
    from le c have "2 * 2 ^ c \<le> 2 * (n div 2)" by simp
    also have "\<dots> \<le> n" by simp
    finally show ?thesis by (simp add: b c)
  qed
qed

lemma digit_chars:
  "char_of (48 :: nat) = CHR ''0''" "char_of (49 :: nat) = CHR ''1''"
  "char_of (50 :: nat) = CHR ''2''" "char_of (51 :: nat) = CHR ''3''"
  "char_of (52 :: nat) = CHR ''4''" "char_of (53 :: nat) = CHR ''5''"
  "char_of (54 :: nat) = CHR ''6''" "char_of (55 :: nat) = CHR ''7''"
  "char_of (56 :: nat) = CHR ''8''" "char_of (57 :: nat) = CHR ''9''"
  by code_simp+

lemma bitlen_eq:
  assumes "2 ^ b \<le> n" and "n < 2 ^ Suc b"
  shows "bitlen n = Suc b"
proof -
  from assms(1) have pos: "0 < n"
    by (rule less_le_trans [rotated]) simp
  have "(2::nat) ^ b < 2 ^ bitlen n"
    using assms(1) bitlen_upper [of n] by (rule le_less_trans)
  then have "b < bitlen n"
    by (rule power_less_imp_less_exp [rotated]) simp
  moreover have "(2::nat) ^ (bitlen n - 1) < 2 ^ Suc b"
    using bitlen_lower [OF pos] assms(2) by (rule le_less_trans)
  then have "bitlen n - 1 < Suc b"
    by (rule power_less_imp_less_exp [rotated]) simp
  ultimately show ?thesis
    by simp
qed

text \<open>An integer whose bits beyond the 53rd are zero is a Number as it is.\<close>

lemma round_nat_exact:
  assumes "bitlen n = 53 + k" and "n mod 2 ^ k = 0"
  shows "round_nat n = n"
proof -
  from assms(2) have "n div 2 ^ k * 2 ^ k = n"
    by (simp add: mod_eq_0_iff_dvd)
  with assms show ?thesis
    by (simp add: round_nat_def rshift_rne_def Let_def)
qed

text \<open>
  \<open>10^21\<close> is the least Number that is written in exponent notation: as a value of
  \<open>days\<close> it puts \<^verbatim>\<open>1e+21\<close> into the statement text.
\<close>

lemma bitlen_1e21:
  "bitlen 1000000000000000000000 = 53 + 17" "bitlen 2000000000000000000000 = 53 + 18"
proof -
  have "bitlen 1000000000000000000000 = Suc 69"
    by (rule bitlen_eq) simp_all
  then show "bitlen 1000000000000000000000 = 53 + 17"
    by simp
  have "bitlen 2000000000000000000000 = Suc 70"
    by (rule bitlen_eq) simp_all
  then show "bitlen 2000000000000000000000 = 53 + 18"
    by simp
qed

lemma round_1e21:
  "round_nat 1000000000000000000000 = 1000000000000000000000"
  "round_nat 2000000000000000000000 = 2000000000000000000000"
  by (rule round_nat_exact, rule bitlen_1e21, simp)+

lemma parseInt_1e21:
  "parseInt ''1000000000000000000000'' = Finite False 1000000000000000000000"
proof -
  have "parseInt ''1000000000000000000000'' = to_number False 1000000000000000000000"
    by (simp add: parseInt_def Let_def is_ws_def is_digit_def digit_of_def digits_val_def)
  then show ?thesis
    by (simp add: to_number_def round_1e21 bitlen_1e21)
qed

lemma show_1e21: "show_nat 1000000000000000000000 = ''1000000000000000000000''"
  "show_nat 21 = ''21''"
  by (simp_all add: show_nat.simps digit_chars)

lemma shortest_1e21: "shortest 1000000000000000000000 = 1000000000000000000000"
  by (simp add: shortest_def show_1e21 round_1e21 Let_def)

lemma digits_to_string_1e21: "digits_to_string ''1000000000000000000000'' = ''1e+21''"
proof -
  have l: "length ''1000000000000000000000'' = 22"
    by simp
  have z: "strip_zeros ''1000000000000000000000'' = ''1''"
    by (simp add: strip_zeros_def)
  show ?thesis
    unfolding digits_to_string_def l z by (simp add: show_1e21(2))
qed

lemma to_string_1e21: "to_string (parseInt ''1000000000000000000000'') = ''1e+21''"
  by (simp add: parseInt_1e21 to_string_def shortest_1e21 show_1e21(1)
      digits_to_string_1e21)

text \<open>
  A no-break space before the digits is skipped, no digit at all gives NaN, and the
  negative zero is written as \<^verbatim>\<open>0\<close>.
\<close>

lemma parseInt_more:
  "parseInt [CHR 0xA0, CHR ''2''] = Finite False 2" "parseInt ''abc'' = NaN"
  "parseInt ''-0'' = Finite True 0" "to_string (Finite True 0) = ''0''"
  "to_string NaN = ''NaN''" "to_string (Finite False 2) = ''2''"
  by code_simp+

text \<open>
  From \<open>2^1024\<close> on, the Number of an integer is an infinity; a hexadecimal numeral of
  257 digits is long enough.
\<close>

lemma rshift_rne_ge: "m div 2 ^ k \<le> rshift_rne m k"
  by (simp add: rshift_rne_def Let_def)

lemma to_number_overflow:
  assumes "2 ^ 1024 \<le> n"
  shows "to_number neg n = Infinity neg"
proof -
  define b where "b = bitlen n"
  define k where "k = b - 53"
  have "(2::nat) ^ 1024 < 2 ^ b"
    using assms bitlen_upper [of n] unfolding b_def by (rule le_less_trans)
  then have b: "1024 < b"
    by (rule power_less_imp_less_exp [rotated]) simp
  then have bk: "b - 1 = 52 + k"
    by (simp add: k_def)
  from assms have "0 < n"
    by (rule less_le_trans [rotated]) simp
  then have "2 ^ (b - 1) \<le> n"
    unfolding b_def by (rule bitlen_lower)
  then have "2 ^ (b - 1) div 2 ^ k \<le> n div 2 ^ k"
    by (rule div_le_mono)
  moreover have "(2::nat) ^ (b - 1) div 2 ^ k = 2 ^ 52"
    unfolding bk by (simp add: power_add)
  ultimately have "(2::nat) ^ 52 \<le> n div 2 ^ k"
    by (simp only:)
  also have "\<dots> \<le> rshift_rne n k"
    by (rule rshift_rne_ge)
  finally have "2 ^ 52 * 2 ^ k \<le> rshift_rne n k * 2 ^ k"
    by (rule mult_le_mono1)
  moreover have "(2::nat) ^ (b - 1) = 2 ^ 52 * 2 ^ k"
    unfolding bk by (simp only: power_add)
  moreover have "round_nat n = rshift_rne n k * 2 ^ k"
    by (simp only: round_nat_def Let_def b_def k_def)
  ultimately have "2 ^ (b - 1) \<le> round_nat n"
    by (simp only:)
  moreover have "(2::nat) ^ 1024 \<le> 2 ^ (b - 1)"
    using b by (intro power_increasing) simp_all
  ultimately have "2 ^ 1024 \<le> round_nat n"
    by (rule le_trans [rotated])
  then have "(2::nat) ^ 1024 < 2 ^ bitlen (round_nat n)"
    using bitlen_upper [of "round_nat n"] by (rule le_less_trans)
  then have "1024 < bitlen (round_nat n)"
    by (rule power_less_imp_less_exp [rotated]) simp
  then show ?thesis
    by (simp add: to_number_def Let_def)
qed

lemma digits_val_zeros:
  "foldl (\<lambda>acc c. acc * R + the (digit_of c)) a (replicate n CHR ''0'') = a * R ^ n"
  by (induction n arbitrary: a) (simp_all add: digit_of_def)

lemma takeWhile_replicate: "P c \<Longrightarrow> takeWhile P (replicate n c) = replicate n c"
  by (induction n) simp_all

lemma parseInt_hex_overflow:
  "parseInt (''0x1'' @ replicate 256 CHR ''0'') = Infinity False"
proof -
  have d: "is_digit 16 CHR ''1''" "is_digit 16 CHR ''0''"
    by (simp_all add: is_digit_def digit_of_def)
  have "digits_val 16 (CHR ''1'' # replicate 256 CHR ''0'')
          = (0 * 16 + the (digit_of CHR ''1'')) * 16 ^ 256"
    by (simp only: digits_val_def foldl_Cons digits_val_zeros)
  also have "\<dots> = 16 ^ 256"
    by (simp add: digit_of_def)
  also have "\<dots> = (2::nat) ^ 1024"
    by (simp add: power_mult [symmetric, of 2 4 256, simplified])
  finally have v: "digits_val 16 (CHR ''1'' # replicate 256 CHR ''0'') = 2 ^ 1024" .
  have "parseInt (''0x1'' @ replicate 256 CHR ''0'')
          = to_number False (digits_val 16 (CHR ''1'' # replicate 256 CHR ''0''))"
    by (simp add: parseInt_def Let_def is_ws_def d takeWhile_replicate)
  then show ?thesis
    by (simp only: v to_number_overflow [OF order_refl])
qed

section \<open>Statement texts and bound parameters\<close>

lemma show_nat_chars:
  assumes "\<And>k :: nat. k < 10 \<Longrightarrow> char_of (48 + k) \<in> S"
  shows "set (show_nat n) \<subseteq> S"
proof (induction n rule: show_nat.induct)
  case (1 n)
  show ?case
  proof (cases "n < 10")
    case True
    then have "show_nat n = [char_of (48 + n)]"
      by (subst show_nat.simps) simp
    with assms [OF True] show ?thesis
      by simp
  next
    case False
    then have eq: "show_nat n = show_nat (n div 10) @ [char_of (48 + n mod 10)]"
      by (subst show_nat.simps) simp
    have "n mod 10 < 10"
      by simp
    from assms [OF this] 1 [OF False] show ?thesis
      unfolding eq by simp
  qed
qed

lemma strip_zeros_subset: "set (strip_zeros ds) \<subseteq> set ds"
  unfolding strip_zeros_def set_rev using set_dropWhileD [of _ _ "rev ds"] by auto

lemma digits_to_string_chars:
  assumes "set ds \<subseteq> S" and "CHR ''0'' \<in> S" and "CHR ''.'' \<in> S" and "set ''e+'' \<subseteq> S"
    and "\<And>k :: nat. k < 10 \<Longrightarrow> char_of (48 + k) \<in> S"
  shows "set (digits_to_string ds) \<subseteq> S"
proof (cases "length ds \<le> 21")
  case True
  with assms(1) show ?thesis
    by (simp add: digits_to_string_def)
next
  case False
  have e: "set (show_nat (length ds - 1)) \<subseteq> S"
    using assms(5) by (rule show_nat_chars)
  show ?thesis
  proof (cases "strip_zeros ds")
    case Nil
    with False assms(2) show ?thesis
      by (simp add: digits_to_string_def)
  next
    case (Cons d rest)
    with strip_zeros_subset [of ds] assms(1) have "d \<in> S" and "set rest \<subseteq> S"
      by auto
    with False Cons e assms(3,4) show ?thesis
      by (simp add: digits_to_string_def)
  qed
qed

lemma to_string_chars_in:
  assumes "\<And>k :: nat. k < 10 \<Longrightarrow> char_of (48 + k) \<in> S"
    and "CHR ''0'' \<in> S" and "CHR ''.'' \<in> S" and "set ''e+'' \<subseteq> S" and "CHR ''-'' \<in> S"
    and "set ''NaN'' \<subseteq> S" and "set ''Infinity'' \<subseteq> S"
  shows "set (to_string x) \<subseteq> S"
proof (cases x)
  case NaN
  with assms(6) show ?thesis
    by (simp only: to_string_def number.case)
next
  case (Infinity neg)
  with assms(5,7) show ?thesis
    by (simp add: to_string_def)
next
  case (Finite neg n)
  have "set (show_nat (shortest n)) \<subseteq> S"
    using assms(1) by (rule show_nat_chars)
  then have "set (digits_to_string (show_nat (shortest n))) \<subseteq> S"
    using assms(2,3,4,1) by (rule digits_to_string_chars)
  with Finite assms(2,5) show ?thesis
    by (auto simp: to_string_def)
qed

lemma number_chars:
  "\<forall>k \<in> set [0..<10]. char_of (48 + k) \<in> set ''-+.0123456789eInfinityNaN''"
  "CHR ''0'' \<in> set ''-+.0123456789eInfinityNaN''"
  "CHR ''.'' \<in> set ''-+.0123456789eInfinityNaN''"
  "set ''e+'' \<subseteq> set ''-+.0123456789eInfinityNaN''"
  "CHR ''-'' \<in> set ''-+.0123456789eInfinityNaN''"
  "set ''NaN'' \<subseteq> set ''-+.0123456789eInfinityNaN''"
  "set ''Infinity'' \<subseteq> set ''-+.0123456789eInfinityNaN''"
  by code_simp+

lemma to_string_chars: "set (to_string x) \<subseteq> set ''-+.0123456789eInfinityNaN''"
proof (rule to_string_chars_in)
  fix k :: nat
  assume "k < 10"
  then have "k \<in> set [0..<10]"
    by (simp only: set_upt atLeastLessThan_iff) simp
  then show "char_of (48 + k) \<in> set ''-+.0123456789eInfinityNaN''"
    by (rule number_chars(1) [THEN bspec])
qed (rule number_chars)+

lemma users_page_query_text_cong:
  assumes "search = [] \<longleftrightarrow> search' = []" and "tier = [] \<longleftrightarrow> tier' = []"
  shows "fst (users_page_query page limit search tier)
           = fst (users_page_query page' limit' search' tier')"
proof (cases "search = []")
  case s: True
  with assms(1) have s': "search' = []" by simp
  show ?thesis
  proof (cases "tier = []")
    case t: True
    with assms(2) have t': "tier' = []" by simp
    show ?thesis
      by (simp only: users_page_query_def Let_def s s' t t' simp_thms if_True if_False
          split_conv fst_conv)
  next
    case t: False
    with assms(2) have t': "tier' \<noteq> []" by simp
    show ?thesis
      by (simp only: users_page_query_def Let_def s s' t t' simp_thms if_True if_False
          split_conv fst_conv)
  qed
next
  case s: False
  with assms(1) have s': "search' \<noteq> []" by simp
  show ?thesis
  proof (cases "tier = []")
    case t: True
    with assms(2) have t': "tier' = []" by simp
    show ?thesis
      by (simp only: users_page_query_def Let_def s s' t t' simp_thms if_True if_False
          split_conv fst_conv)
  next
    case t: False
    with assms(2) have t': "tier' \<noteq> []" by simp
    show ?thesis
      by (simp only: users_page_query_def Let_def s s' t t' simp_thms if_True if_False
          split_conv fst_conv)
  qed
qed

lemma users_count_query_text_cong:
  assumes "search = [] \<longleftrightarrow> search' = []" and "tier = [] \<longleftrightarrow> tier' = []"
  shows "fst (users_count_query search tier) = fst (users_count_query search' tier')"
proof (cases "search = []")
  case s: True
  with assms(1) have s': "search' = []" by simp
  show ?thesis
  proof (cases "tier = []")
    case t: True
    with assms(2) have t': "tier' = []" by simp
    show ?thesis
      by (simp only: users_count_query_def Let_def s s' t t' simp_thms if_True if_False
          split_conv fst_conv)
  next
    case t: False
    with assms(2) have t': "tier' \<noteq> []" by simp
    show ?thesis
      by (simp only: users_count_query_def Let_def s s' t t' simp_thms if_True if_False
          split_conv fst_conv)
  qed
next
  case s: False
  with assms(1) have s': "search' \<noteq> []" by simp
  show ?thesis
  proof (cases "tier = []")
    case t: True
    with assms(2) have t': "tier' = []" by simp
    show ?thesis
      by (simp only: users_count_query_def Let_def s s' t t' simp_thms if_True if_False
          split_conv fst_conv)
  next
    case t: False
    with assms(2) have t': "tier' \<noteq> []" by simp
    show ?thesis
      by (simp only: users_count_query_def Let_def s s' t t' simp_thms if_True if_False
          split_conv fst_conv)
  qed
qed

lemma users_page_query_params:
  "snd (users_page_query page limit search tier) =
     (if search \<noteq> [] then [Text (''%'' @ search @ ''%''), Text (''%'' @ search @ ''%'')]
      else [])
     @ (if tier \<noteq> [] then [Text tier] else [])
     @ [Number (parseInt limit),
        Number (js_mul (js_sub (parseInt page) (Finite False 1)) (parseInt limit))]"
  by (simp add: users_page_query_def Let_def)

lemma users_count_query_params:
  "snd (users_count_query search tier) =
     (if search \<noteq> [] then [Text (''%'' @ search @ ''%''), Text (''%'' @ search @ ''%'')]
      else [])
     @ (if tier \<noteq> [] then [Text tier] else [])"
  by (simp add: users_count_query_def Let_def)

lemma signups_query_splice:
  "signups_query d =
     ('' SELECT DATE(created_at) as date, COUNT(*) as count FROM users''
      @ '' WHERE created_at > NOW() - INTERVAL '' @ [CHR 0x27])
     @ to_string (parseInt d)
     @ ('' days'' @ [CHR 0x27] @ '' GROUP BY DATE(created_at) ORDER BY date DESC '')"
  by (simp add: signups_query_def)

lemma listings_over_time_query_splice:
  "listings_over_time_query d =
     ('' SELECT DATE(created_at) as date, COUNT(*) as count FROM listings''
      @ '' WHERE created_at > NOW() - INTERVAL '' @ [CHR 0x27])
     @ to_string (parseInt d)
     @ ('' days'' @ [CHR 0x27] @ '' GROUP BY DATE(created_at) ORDER BY date DESC '')"
  by (simp add: listings_over_time_query_def)

lemma splice_eq_iff: "before @ x @ after = before @ y @ after \<longleftrightarrow> x = y"
  by simp

text \<open>
  C7 (as the code has it). The text of the two \<^verbatim>\<open>getUsers\<close> statements depends only on
  whether \<open>search\<close> and \<open>tier\<close> are empty: the filter values, the limit and the page
  reach the store in the parameter vector alone. The two \<^verbatim>\<open>getSystemStats\<close> statements
  carry the string of \<^verbatim>\<open>parseInt(days)\<close> inside their text, between a fixed beginning
  and a fixed end: two \<open>days\<close> values give the same text exactly when that string is the
  same for both. What is spliced in is the string of a Number; it consists of digits,
  the signs, a point and the letters of \<^verbatim>\<open>e\<close>, \<^verbatim>\<open>Infinity\<close> and \<^verbatim>\<open>NaN\<close>.
\<close>

theorem filter_values_and_statement_text:
  "((search = [] \<longleftrightarrow> search' = []) \<and> (tier = [] \<longleftrightarrow> tier' = []) \<longrightarrow>
      fst (users_page_query page limit search tier)
        = fst (users_page_query page' limit' search' tier')
      \<and> fst (users_count_query search tier) = fst (users_count_query search' tier'))
   \<and> snd (users_page_query page limit search tier) =
       (if search \<noteq> [] then [Text (''%'' @ search @ ''%''), Text (''%'' @ search @ ''%'')]
        else [])
       @ (if tier \<noteq> [] then [Text tier] else [])
       @ [Number (parseInt limit),
          Number (js_mul (js_sub (parseInt page) (Finite False 1)) (parseInt limit))]
   \<and> snd (users_count_query search tier) =
       (if search \<noteq> [] then [Text (''%'' @ search @ ''%''), Text (''%'' @ search @ ''%'')]
        else [])
       @ (if tier \<noteq> [] then [Text tier] else [])
   \<and> (signups_query days_s = signups_query days_s'
        \<longleftrightarrow> to_string (parseInt days_s) = to_string (parseInt days_s'))
   \<and> (listings_over_time_query days_s = listings_over_time_query days_s'
        \<longleftrightarrow> to_string (parseInt days_s) = to_string (parseInt days_s'))
   \<and> (\<exists>before after. \<forall>d. signups_query d = before @ to_string (parseInt d) @ after)
   \<and> (\<exists>before after. \<forall>d.
         listings_over_time_query d = before @ to_string (parseInt d) @ after)
   \<and> set (to_string (parseInt days_s)) \<subseteq> set ''-+.0123456789eInfinityNaN''"
proof (intro conjI impI)
  assume same: "(search = [] \<longleftrightarrow> search' = []) \<and> (tier = [] \<longleftrightarrow> tier' = [])"
  show "fst (users_page_query page limit search tier)
          = fst (users_page_query page' limit' search' tier')"
    using same by (intro users_page_query_text_cong) simp_all
  show "fst (users_count_query search tier) = fst (users_count_query search' tier')"
    using same by (intro users_count_query_text_cong) simp_all
next
  show "snd (users_page_query page limit search tier) =
       (if search \<noteq> [] then [Text (''%'' @ search @ ''%''), Text (''%'' @ search @ ''%'')]
        else [])
       @ (if tier \<noteq> [] then [Text tier] else [])
       @ [Number (parseInt limit),
          Number (js_mul (js_sub (parseInt page) (Finite False 1)) (parseInt limit))]"
    by (rule users_page_query_params)
next
  show "snd (users_count_query search tier) =
       (if search \<noteq> [] then [Text (''%'' @ search @ ''%''), Text (''%'' @ search @ ''%'')]
        else [])
       @ (if tier \<noteq> [] then [Text tier] else [])"
    by (rule users_count_query_params)
next
  show "signups_query days_s = signups_query days_s'
        \<longleftrightarrow> to_string (parseInt days_s) = to_string (parseInt days_s')"
    by (simp only: signups_query_splice splice_eq_iff)
next
  show "listings_over_time_query days_s = listings_over_time_query days_s'
        \<longleftrightarrow> to_string (parseInt days_s) = to_string (parseInt days_s')"
    by (simp only: listings_over_time_query_splice splice_eq_iff)
next
  show "\<exists>before after. \<forall>d. signups_query d = before @ to_string (parseInt d) @ after"
    by (rule exI [of _ "'' SELECT DATE(created_at) as date, COUNT(*) as count FROM users''
          @ '' WHERE created_at > NOW() - INTERVAL '' @ [CHR 0x27]"],
        rule exI [of _ "'' days'' @ [CHR 0x27]
          @ '' GROUP BY DATE(created_at) ORDER BY date DESC ''"])
      (simp add: signups_query_def)
next
  show "\<exists>before after. \<forall>d.
          listings_over_time_query d = before @ to_string (parseInt d) @ after"
    by (rule exI [of _ "'' SELECT DATE(created_at) as date, COUNT(*) as count FROM listings''
          @ '' WHERE created_at > NOW() - INTERVAL '' @ [CHR 0x27]"],
        rule exI [of _ "'' days'' @ [CHR 0x27]
          @ '' GROUP BY DATE(created_at) ORDER BY date DESC ''"])
      (simp add: listings_over_time_query_def)
next
  show "set (to_string (parseInt days_s)) \<subseteq> set ''-+.0123456789eInfinityNaN''"
    by (rule to_string_chars)
qed

theorem filter_values_and_statement_text_witness:
  "fst (users_page_query ''1'' ''50'' ''bob'' ''free'')
     = fst (users_page_query ''2'' ''10'' ''x' OR 1=1 --'' ''premium'')
   \<and> snd (users_page_query ''2'' ''10'' ''x' OR 1=1 --'' ''premium'')
       = [Text ''%x' OR 1=1 --%'', Text ''%x' OR 1=1 --%'', Text ''premium'',
          Number (Finite False 10), Number (Finite False 10)]
   \<and> to_string (parseInt ''7'') = to_string (parseInt '' 7 days'')
   \<and> signups_query ''7'' = signups_query '' 7 days''
   \<and> to_string (parseInt ''7'') \<noteq> to_string (parseInt ''30'')
   \<and> signups_query ''7'' \<noteq> signups_query ''30''"
proof -
  note t = filter_values_and_statement_text
    [of "''bob''" "''x' OR 1=1 --''" "''free''" "''premium''" "''1''" "''50''" "''2''" "''10''"
        "''7''" "'' 7 days''"]
  note u = filter_values_and_statement_text
    [of "''bob''" "''x' OR 1=1 --''" "''free''" "''premium''" "''1''" "''50''" "''2''" "''10''"
        "''7''" "''30''"]
  have same: "(''bob'' = [] \<longleftrightarrow> ''x' OR 1=1 --'' = []) \<and> (''free'' = [] \<longleftrightarrow> ''premium'' = [])"
    by simp
  have p: "to_string (parseInt ''7'') = to_string (parseInt '' 7 days'')"
    by (simp only: parseInt_examples)
  have q: "to_string (parseInt ''7'') \<noteq> to_string (parseInt ''30'')"
    by (simp only: parseInt_examples to_string_examples) simp
  have a: "fst (users_page_query ''1'' ''50'' ''bob'' ''free'')
     = fst (users_page_query ''2'' ''10'' ''x' OR 1=1 --'' ''premium'')"
    by (rule t [THEN conjunct1, THEN mp, OF same, THEN conjunct1])
  have b: "signups_query ''7'' = signups_query '' 7 days''"
    using t [THEN conjunct2, THEN conjunct2, THEN conjunct2, THEN conjunct1] p
    by (simp only:)
  have d: "signups_query ''7'' \<noteq> signups_query ''30''"
    using u [THEN conjunct2, THEN conjunct2, THEN conjunct2, THEN conjunct1] q
    by (simp only: simp_thms)
  have c: "snd (users_page_query ''2'' ''10'' ''x' OR 1=1 --'' ''premium'')
       = [Text ''%x' OR 1=1 --%'', Text ''%x' OR 1=1 --%'', Text ''premium'',
          Number (Finite False 10), Number (Finite False 10)]"
    by (simp add: users_page_query_params parseInt_examples offset_examples
        del: One_nat_def)
  show ?thesis
    apply (intro conjI)
         apply (rule a)
        apply (rule c)
       apply (rule p)
      apply (rule b)
     apply (rule q)
    apply (rule d)
    done
qed

text \<open>
  C7 (as the claim states it) fails: two values of \<open>days\<close> give two different statement
  texts, and an empty and a non-empty \<open>search\<close> do as well.
\<close>

theorem statement_text_counterexample:
  "signups_query ''7'' \<noteq> signups_query ''30''
   \<and> listings_over_time_query ''7'' \<noteq> listings_over_time_query ''30''
   \<and> fst (users_page_query ''1'' ''50'' ''bob'' []) \<noteq> fst (users_page_query ''1'' ''50'' [] [])"
proof -
  have "to_string (parseInt ''7'') \<noteq> to_string (parseInt ''30'')"
    by (simp only: parseInt_examples to_string_examples) simp
  then have "signups_query ''7'' \<noteq> signups_query ''30''"
    and "listings_over_time_query ''7'' \<noteq> listings_over_time_query ''30''"
    by (simp_all only: signups_query_splice listings_over_time_query_splice splice_eq_iff
        simp_thms)
  moreover have "fst (users_page_query ''1'' ''50'' ''bob'' [])
      \<noteq> fst (users_page_query ''1'' ''50'' [] [])"
    by (simp add: users_page_query_def Let_def users_select_def)
  ultimately show ?thesis
    by (simp only: simp_thms)
qed

section \<open>Wild cards in the search pattern\<close>



lemma to_lower_wildcards [simp]:
  "to_lower CHR ''%'' = CHR ''%''" "to_lower CHR ''_'' = CHR ''_''"
  by code_simp+






section \<open>The revenue estimate\<close>

subsection \<open>The error of one rounding\<close>

lemma rshift_rne_zero: "rshift_rne m 0 = m"
  by (simp add: rshift_rne_def)

lemma rshift_rne_err:
  "2 * \<bar>int (rshift_rne m k) * 2 ^ k - int m\<bar> \<le> 2 ^ k"
proof -
  define q where "q = m div 2 ^ k"
  define r where "r = m mod 2 ^ k"
  have m: "int m = int q * 2 ^ k + int r"
    unfolding q_def r_def
    by (metis div_mult_mod_eq of_nat_add of_nat_mult of_nat_numeral of_nat_power)
  have r: "int r < 2 ^ k"
    unfolding r_def by (metis mod_less_divisor of_nat_less_iff of_nat_numeral of_nat_power pos2 zero_less_power)
  have r0: "0 \<le> int r" by simp
  show ?thesis
  proof (cases "2 * r > 2 ^ k \<or> (2 * r = 2 ^ k \<and> odd q)")
    case True
    then have up: "rshift_rne m k = q + 1"
      by (simp add: rshift_rne_def q_def r_def Let_def)
    from True have "2 * int r \<ge> 2 ^ k"
      by (metis less_imp_le_nat of_nat_le_iff of_nat_mult of_nat_numeral of_nat_power order_refl)
    with r show ?thesis
      unfolding up m by (simp add: algebra_simps)
  next
    case False
    then have dn: "rshift_rne m k = q"
      by (simp add: rshift_rne_def q_def r_def Let_def)
    from False have "2 * r \<le> 2 ^ k" by auto
    then have "2 * int r \<le> 2 ^ k"
      by (metis of_nat_le_iff of_nat_mult of_nat_numeral of_nat_power)
    with r0 show ?thesis
      unfolding dn m by (simp add: algebra_simps)
  qed
qed

lemma dval_nonneg: "0 \<le> dval d"
  by (simp add: dval_def)

lemma pow_nat_powi:
  "0 \<le> d \<Longrightarrow> (2::real) ^ nat d * 2 powi e = 2 powi (d + e)"
proof -
  assume "0 \<le> d"
  then have "(2::real) ^ nat d = 2 powi d"
    by (simp add: power_int_def)
  then show ?thesis
    by (simp add: power_int_add)
qed

lemma round_double_err:
  "\<bar>dval (round_double m e) - real m * 2 powi e\<bar> \<le> real m * 2 powi e / 2 ^ 53"
proof -
  define k where "k = bitlen m - 53"
  define m' where "m' = rshift_rne m k"
  have pe: "(0::real) < 2 powi e"
    by simp
  have rd: "dval (round_double m e) = real m' * 2 ^ k * 2 powi e"
    by (simp add: round_double_def dval_def k_def m'_def Let_def power_int_add)
  show ?thesis
  proof (cases "k = 0")
    case True
    then have "m' = m"
      by (simp add: m'_def rshift_rne_zero)
    with True show ?thesis
      by (simp add: rd)
  next
    case False
    then have bl: "bitlen m = 53 + k"
      by (simp add: k_def)
    then have "0 < m"
      by (cases "m = 0") (simp_all add: bitlen.simps)
    from bitlen_lower [OF this] have "2 ^ (52 + k) \<le> m"
      by (simp add: bl)
    then have "real (2 ^ (52 + k)) \<le> real m"
      by (rule of_nat_mono)
    then have low: "(2::real) ^ 52 * 2 ^ k \<le> real m"
      by (simp add: power_add)
    have "real_of_int (2 * \<bar>int m' * 2 ^ k - int m\<bar>) \<le> real_of_int (2 ^ k)"
      unfolding m'_def by (rule of_int_le_iff [THEN iffD2]) (rule rshift_rne_err)
    then have err: "2 * \<bar>real m' * 2 ^ k - real m\<bar> \<le> 2 ^ k"
      by simp
    have "\<bar>real m' * 2 ^ k - real m\<bar> \<le> real m / 2 ^ 53"
      using err low by (simp add: field_simps)
    then have "\<bar>real m' * 2 ^ k - real m\<bar> * 2 powi e \<le> real m / 2 ^ 53 * 2 powi e"
      using pe by (simp only: mult_le_cancel_right_pos)
    moreover have "\<bar>dval (round_double m e) - real m * 2 powi e\<bar>
        = \<bar>real m' * 2 ^ k - real m\<bar> * 2 powi e"
      unfolding rd using pe by (simp add: abs_mult flip: left_diff_distrib)
    ultimately show ?thesis
      by simp
  qed
qed

lemma dmul_err:
  "\<bar>dval (dmul x y) - dval x * dval y\<bar> \<le> dval x * dval y / 2 ^ 53"
proof -
  have "real (fst x * fst y) * 2 powi (snd x + snd y) = dval x * dval y"
    by (simp add: dval_def power_int_add)
  with round_double_err [of "fst x * fst y" "snd x + snd y"] show ?thesis
    by (simp add: dmul_def)
qed

lemma dadd_err:
  "\<bar>dval (dadd x y) - (dval x + dval y)\<bar> \<le> (dval x + dval y) / 2 ^ 53"
proof -
  define e where "e = min (snd x) (snd y)"
  have "0 \<le> snd x - e" "0 \<le> snd y - e"
    by (simp_all add: e_def)
  then have "real (fst x * 2 ^ nat (snd x - e) + fst y * 2 ^ nat (snd y - e)) * 2 powi e
      = dval x + dval y"
    using pow_nat_powi [of "snd x - e" e] pow_nat_powi [of "snd y - e" e]
    by (simp add: dval_def algebra_simps)
  with round_double_err [of "fst x * 2 ^ nat (snd x - e) + fst y * 2 ^ nat (snd y - e)" e]
  show ?thesis
    by (simp add: dadd_def e_def Let_def)
qed

lemma round_double_exact: "m < 2 ^ 53 \<Longrightarrow> round_double m e = (m, e)"
proof -
  assume m: "m < 2 ^ 53"
  have "bitlen m \<le> 53"
  proof (rule ccontr)
    assume "\<not> bitlen m \<le> 53"
    then have b: "54 \<le> bitlen m" by simp
    then have "0 < m" by (cases "m = 0") (simp_all add: bitlen.simps)
    from bitlen_lower [OF this] have "2 ^ (bitlen m - 1) \<le> m" .
    moreover from b have "(2::nat) ^ 53 \<le> 2 ^ (bitlen m - 1)"
      by (intro power_increasing) simp_all
    ultimately show False using m by linarith
  qed
  then show ?thesis
    by (simp add: round_double_def rshift_rne_zero)
qed

lemma dval_double_of_nat: "n < 2 ^ 53 \<Longrightarrow> dval (double_of_nat n) = real n"
  by (simp add: double_of_nat_def round_double_exact dval_def)

subsection \<open>Rounding to cents\<close>

lemma floor_half: "\<lfloor>real n + 1 / 2\<rfloor> = int n"
  by (rule floor_unique) simp_all

lemma cents_of_floor: "int (cents_of d) = \<lfloor>100 * dval d + 1 / 2\<rfloor>"
proof (cases "0 \<le> snd d")
  case True
  then have "2 powi snd d = (2::real) ^ nat (snd d)"
    by (simp add: power_int_def)
  then have "100 * dval d = real (100 * fst d * 2 ^ nat (snd d))"
    by (simp add: dval_def)
  then have "\<lfloor>100 * dval d + 1 / 2\<rfloor> = int (100 * fst d * 2 ^ nat (snd d))"
    by (simp only: floor_half)
  with True show ?thesis
    by (simp only: cents_of_def if_True)
next
  case False
  define k where "k = nat (- snd d)"
  from False have "2 powi snd d = 1 / (2::real) ^ k"
    by (simp add: power_int_def k_def power_one_over inverse_eq_divide)
  then have "100 * dval d + 1 / 2 = real (200 * fst d + 2 ^ k) / real (2 ^ (k + 1))"
    by (simp add: dval_def field_simps)
  then have "\<lfloor>100 * dval d + 1 / 2\<rfloor> = int ((200 * fst d + 2 ^ k) div 2 ^ (k + 1))"
    by (simp only: floor_divide_of_nat_eq)
  with False show ?thesis
    by (simp only: cents_of_def k_def if_False)
qed

lemma cents_of_eq:
  assumes "\<bar>100 * dval d - real N\<bar> < 1 / 2"
  shows "cents_of d = N"
proof -
  have "100 * dval d - real N < 1 / 2" and "- (100 * dval d - real N) < 1 / 2"
    using assms by (simp_all only: abs_less_iff)
  then have "real_of_int (int N) \<le> 100 * dval d + 1 / 2"
    and "100 * dval d + 1 / 2 < real_of_int (int N) + 1"
    by simp_all
  then have "\<lfloor>100 * dval d + 1 / 2\<rfloor> = int N"
    by (rule floor_unique)
  then show ?thesis
    by (simp flip: cents_of_floor)
qed

subsection \<open>The accumulated rounding error\<close>

lemma abs_tri:
  fixes a b c :: real
  shows "\<bar>a - b\<bar> \<le> d \<Longrightarrow> \<bar>b - c\<bar> \<le> e \<Longrightarrow> \<bar>a - c\<bar> \<le> d + e"
  by linarith

lemma abs_sum:
  fixes a b c :: real
  shows "\<bar>a - b\<bar> \<le> d \<Longrightarrow> \<bar>a' - b'\<bar> \<le> e \<Longrightarrow> \<bar>(a + a') - (b + b')\<bar> \<le> d + e"
  by linarith

lemma abs_scale:
  fixes x y k :: real
  assumes "0 \<le> k" and "\<bar>x - y\<bar> \<le> e"
  shows "\<bar>k * x - k * y\<bar> \<le> k * e"
proof -
  have "\<bar>k * x - k * y\<bar> = k * \<bar>x - y\<bar>"
    using assms(1) by (simp only: right_diff_distrib [symmetric] abs_mult abs_of_nonneg)
  also have "\<dots> \<le> k * e"
    by (rule mult_left_mono [OF assms(2) assms(1)])
  finally show ?thesis .
qed

text \<open>One rounding moves a hundredfold value by less than \<open>t / (9 * 10^13)\<close>.\<close>

lemma rel_step:
  fixes s t :: real
  assumes "0 \<le> t" and "\<bar>s - t\<bar> \<le> t / 2 ^ 53"
  shows "\<bar>100 * s - 100 * t\<bar> \<le> t / (9 * 10 ^ 13)"
proof -
  have "\<bar>100 * s - 100 * t\<bar> \<le> 100 * (t / 2 ^ 53)"
    using assms(2) by (intro abs_scale) simp_all
  also have "\<dots> \<le> t / (9 * 10 ^ 13)"
    using assms(1) by simp
  finally show ?thesis .
qed

text \<open>A count times a price literal \<open>c\<close> that stands for \<open>b\<close> cents.\<close>

lemma lit_step:
  fixes x c n b :: real
  assumes "0 \<le> n" and "n \<le> 10 ^ 10" and "\<bar>x - n * c\<bar> \<le> n * c / 2 ^ 53"
    and "\<bar>100 * c - b\<bar> \<le> 1 / 10 ^ 13" and "0 \<le> c" and "c \<le> 10"
  shows "\<bar>100 * x - n * b\<bar> \<le> 1 / 400"
proof -
  have "n * c \<le> 10 ^ 10 * 10"
    using assms(1,2,5,6) by (intro mult_mono) simp_all
  moreover have nc: "0 \<le> n * c"
    using assms(1,5) by simp
  moreover have "\<bar>100 * x - 100 * (n * c)\<bar> \<le> n * c / (9 * 10 ^ 13)"
    using nc assms(3) by (rule rel_step)
  ultimately have h1: "\<bar>100 * x - 100 * (n * c)\<bar> \<le> 1 / 800"
    by simp
  have "\<bar>n * (100 * c) - n * b\<bar> \<le> n * (1 / 10 ^ 13)"
    using assms(1,4) by (rule abs_scale)
  also have "\<dots> \<le> 1 / 1000"
    using assms(2) by simp
  finally have h2: "\<bar>100 * (n * c) - n * b\<bar> \<le> 1 / 1000"
    by (simp only: mult.left_commute)
  have "\<bar>100 * x - n * b\<bar> \<le> 1 / 800 + 1 / 1000"
    using h1 h2 by (rule abs_tri)
  then show ?thesis
    by simp
qed

lemma arith_revenue:
  fixes P Q x1 x2 s a :: real
  assumes P: "0 \<le> P" "P \<le> 10 ^ 10" and Q: "0 \<le> Q" "Q \<le> 10 ^ 10"
    and n: "0 \<le> x1" "0 \<le> x2" "0 \<le> s"
    and e1: "\<bar>x1 - P * (5618240535144694 / 2 ^ 50)\<bar> \<le> P * (5618240535144694 / 2 ^ 50) / 2 ^ 53"
    and e2: "\<bar>x2 - Q * (5623870034678907 / 2 ^ 49)\<bar> \<le> Q * (5623870034678907 / 2 ^ 49) / 2 ^ 53"
    and e3: "\<bar>s - (x1 + x2)\<bar> \<le> (x1 + x2) / 2 ^ 53"
    and e4: "\<bar>a - s * 12\<bar> \<le> s * 12 / 2 ^ 53"
  shows "\<bar>100 * s - (P * 499 + Q * 999)\<bar> < 1 / 2"
    and "\<bar>100 * a - 12 * (P * 499 + Q * 999)\<bar> < 1 / 2"
proof -
  define t where "t = x1 + x2"
  define A where "A = P * 499 + Q * 999"
  define r where "r = s * 12"
  have d1: "\<bar>100 * x1 - P * 499\<bar> \<le> 1 / 400"
    using P e1 by (rule lit_step) simp_all
  have d2: "\<bar>100 * x2 - Q * 999\<bar> \<le> 1 / 400"
    using Q e2 by (rule lit_step) simp_all
  have "\<bar>(100 * x1 + 100 * x2) - (P * 499 + Q * 999)\<bar> \<le> 1 / 400 + 1 / 400"
    using d1 d2 by (rule abs_sum)
  then have tA: "\<bar>100 * t - A\<bar> \<le> 1 / 200"
    by (simp add: t_def A_def)
  have A: "A \<le> 15 * 10 ^ 12"
    using P Q unfolding A_def by simp
  have "100 * t - A \<le> 1 / 200"
    using tA by (rule abs_le_D1)
  with A have t: "0 \<le> t" "t \<le> 2 * 10 ^ 11"
    using n by (simp_all add: t_def)
  have "\<bar>100 * s - 100 * t\<bar> \<le> t / (9 * 10 ^ 13)"
    using t(1) e3 unfolding t_def [symmetric] by (rule rel_step)
  also have "\<dots> \<le> 1 / 400"
    using t by simp
  finally have st: "\<bar>100 * s - 100 * t\<bar> \<le> 1 / 400" .
  have "\<bar>100 * s - A\<bar> \<le> 1 / 400 + 1 / 200"
    using st tA by (rule abs_tri)
  then have sA: "\<bar>100 * s - A\<bar> \<le> 3 / 400"
    by simp
  then show "\<bar>100 * s - (P * 499 + Q * 999)\<bar> < 1 / 2"
    unfolding A_def by simp
  have "100 * s - A \<le> 3 / 400"
    using sA by (rule abs_le_D1)
  with A have r: "0 \<le> r" "r \<le> 2 * 10 ^ 12"
    using n by (simp_all add: r_def)
  have "\<bar>100 * a - 100 * r\<bar> \<le> r / (9 * 10 ^ 13)"
    using r(1) e4 unfolding r_def [symmetric] by (rule rel_step)
  also have "\<dots> \<le> 1 / 40"
    using r by simp
  finally have ar: "\<bar>100 * a - 100 * r\<bar> \<le> 1 / 40" .
  have "\<bar>12 * (100 * s) - 12 * A\<bar> \<le> 12 * (3 / 400)"
    using _ sA by (rule abs_scale) simp
  then have rA: "\<bar>100 * r - 12 * A\<bar> \<le> 12 * (3 / 400)"
    by (simp add: r_def)
  have "\<bar>100 * a - 12 * A\<bar> \<le> 1 / 40 + 12 * (3 / 400)"
    using ar rA by (rule abs_tri)
  then show "\<bar>100 * a - 12 * (P * 499 + Q * 999)\<bar> < 1 / 2"
    unfolding A_def by simp
qed

lemma lit_values:
  "dval lit_4_99 = 5618240535144694 / 2 ^ 50"
  "dval lit_9_99 = 5623870034678907 / 2 ^ 49"
  "dval lit_12 = 12"
  by (simp_all add: dval_def lit_4_99_def lit_9_99_def lit_12_def power_int_minus
      inverse_eq_divide)

text \<open>
  Up to ten thousand million subscribers of either tier, the two revenue values are
  within half a cent of \<open>4.99 p + 9.99 q\<close> and of twelve times that.
\<close>

lemma revenue_error:
  assumes "p \<le> 10 ^ 10" and "q \<le> 10 ^ 10"
  shows "\<bar>100 * dval (monthlyRevenue p q) - real (499 * p + 999 * q)\<bar> < 1 / 2"
    and "\<bar>100 * dval (annualRevenue p q) - real (12 * (499 * p + 999 * q))\<bar> < 1 / 2"
proof -
  define P where "P = real p"
  define Q where "Q = real q"
  define x1 where "x1 = dval (dmul (double_of_nat p) lit_4_99)"
  define x2 where "x2 = dval (dmul (double_of_nat q) lit_9_99)"
  define s where "s = dval (monthlyRevenue p q)"
  define a where "a = dval (annualRevenue p q)"
  have P: "0 \<le> P" "P \<le> 10 ^ 10" and Q: "0 \<le> Q" "Q \<le> 10 ^ 10"
    using assms by (simp_all add: P_def Q_def)
  have n: "0 \<le> x1" "0 \<le> x2" "0 \<le> s"
    by (simp_all only: x1_def x2_def s_def dval_nonneg)
  have "p < 2 ^ 53" "q < 2 ^ 53"
    using assms by simp_all
  then have dp: "dval (double_of_nat p) = P" and dq: "dval (double_of_nat q) = Q"
    by (simp_all add: dval_double_of_nat P_def Q_def)
  have e1: "\<bar>x1 - P * (5618240535144694 / 2 ^ 50)\<bar> \<le> P * (5618240535144694 / 2 ^ 50) / 2 ^ 53"
    using dmul_err [of "double_of_nat p" lit_4_99] by (simp only: x1_def dp lit_values)
  have e2: "\<bar>x2 - Q * (5623870034678907 / 2 ^ 49)\<bar> \<le> Q * (5623870034678907 / 2 ^ 49) / 2 ^ 53"
    using dmul_err [of "double_of_nat q" lit_9_99] by (simp only: x2_def dq lit_values)
  have e3: "\<bar>s - (x1 + x2)\<bar> \<le> (x1 + x2) / 2 ^ 53"
    using dadd_err [of "dmul (double_of_nat p) lit_4_99" "dmul (double_of_nat q) lit_9_99"]
    by (simp only: s_def x1_def x2_def monthlyRevenue_def)
  have e4: "\<bar>a - s * 12\<bar> \<le> s * 12 / 2 ^ 53"
    using dmul_err [of "monthlyRevenue p q" lit_12]
    by (simp only: a_def s_def annualRevenue_def lit_values)
  have r: "real (499 * p + 999 * q) = P * 499 + Q * 999"
    "real (12 * (499 * p + 999 * q)) = 12 * (P * 499 + Q * 999)"
    by (simp_all add: P_def Q_def)
  show "\<bar>100 * dval (monthlyRevenue p q) - real (499 * p + 999 * q)\<bar> < 1 / 2"
    unfolding r s_def [symmetric] using P Q n e1 e2 e3 e4 by (rule arith_revenue)
  show "\<bar>100 * dval (annualRevenue p q) - real (12 * (499 * p + 999 * q))\<bar> < 1 / 2"
    unfolding r a_def [symmetric] using P Q n e1 e2 e3 e4 by (rule arith_revenue)
qed

lemma revenue_cents:
  assumes "p \<le> 10 ^ 10" and "q \<le> 10 ^ 10"
  shows "cents_of (monthlyRevenue p q) = 499 * p + 999 * q"
    and "cents_of (annualRevenue p q) = 12 * (499 * p + 999 * q)"
  using assms by (rule cents_of_eq [OF revenue_error(1)], rule cents_of_eq [OF revenue_error(2)])

subsection \<open>The two fraction digits\<close>

lemma show_nat_digit: "n < 10 \<Longrightarrow> show_nat n = [char_of (48 + n)]"
  by (subst show_nat.simps) simp

lemma show_nat_step:
  "10 \<le> n \<Longrightarrow> show_nat n = show_nat (n div 10) @ [char_of (48 + n mod 10)]"
  by (subst show_nat.simps) simp

lemma show_nat_nonempty: "show_nat n \<noteq> []"
  by (subst show_nat.simps) simp

lemma char_zero: "CHR ''0'' = char_of (48 :: nat)"
  by code_simp

text \<open>
  \<open>show_cents n\<close> is the decimal numeral of \<open>n div 100\<close>, a point, and the two decimal
  digits of \<open>n mod 100\<close>.
\<close>

lemma show_cents_format:
  "show_cents n
     = show_nat (n div 100) @ ''.'' @ [char_of (48 + n div 10 mod 10), char_of (48 + n mod 10)]"
proof -
  consider "n < 10" | "10 \<le> n" "n < 100" | "100 \<le> n"
    by linarith
  then show ?thesis
  proof cases
    case 1
    then have "show_nat n = [char_of (48 + n)]" "n div 100 = 0" "n div 10 = 0" "n mod 10 = n"
      by (simp_all add: show_nat_digit)
    then show ?thesis
      by (simp add: show_cents_def Let_def show_nat_digit char_zero)
  next
    case 2
    then have "n div 10 < 10" "n div 100 = 0"
      by simp_all
    then have "show_nat n = [char_of (48 + n div 10), char_of (48 + n mod 10)]"
      "n div 100 = 0" "n div 10 mod 10 = n div 10"
      using 2(1) by (simp_all add: show_nat_step show_nat_digit)
    then show ?thesis
      by (simp add: show_cents_def Let_def show_nat_digit char_zero)
  next
    case 3
    then have "10 \<le> n" "10 \<le> n div 10"
      by simp_all
    then have "show_nat n = show_nat (n div 10 div 10)
        @ [char_of (48 + n div 10 mod 10), char_of (48 + n mod 10)]"
      by (simp add: show_nat_step)
    moreover have "n div 10 div 10 = n div 100"
      by (simp add: div_mult2_eq [symmetric])
    ultimately show ?thesis
      by (simp add: show_cents_def Let_def Suc_le_eq show_nat_nonempty)
  qed
qed

subsection \<open>The revenue fields of the metrics report\<close>

text \<open>
  The decimal numeral, with two fraction digits, of the amount of \<open>n\<close> hundredths: the
  numeral of \<open>n div 100\<close>, a point, and the two digits of \<open>n mod 100\<close>.
\<close>

definition decimal_of_cents :: "nat \<Rightarrow> string" where
  "decimal_of_cents n =
     show_nat (n div 100) @ ''.'' @ [char_of (48 + n div 10 mod 10), char_of (48 + n mod 10)]"

text \<open>Ten premium subscribers (alice among them) and five premium-plus subscribers.\<close>

definition subscriber :: "string \<Rightarrow> nat \<Rightarrow> users_row" where
  "subscriber tier i =
     \<lparr>u_id = i, u_username = Some (''user'' @ show_nat i),
      u_email = Some (''user'' @ show_nat i @ ''@example.com''),
      u_subscription_tier = Some tier, u_points = Some 0, u_current_level = 1,
      u_is_admin = Some False, u_created_at = 200, u_updated_at = 200\<rparr>"

definition subscribers :: database where
  "subscribers =
     shop\<lparr>users := alice # map (subscriber ''premium'') [21..<30]
                     @ map (subscriber ''premium_plus'') [31..<36]\<rparr>"

lemma metrics_revenue:
  "r_premiumUsers (m_revenue (compute_metrics now db)) = premium_count db"
  "r_premiumPlusUsers (m_revenue (compute_metrics now db)) = premium_plus_count db"
  "r_monthlyRevenue (m_revenue (compute_metrics now db))
     = toFixed2 (monthlyRevenue (premium_count db) (premium_plus_count db))"
  "r_annualRevenue (m_revenue (compute_metrics now db))
     = toFixed2 (annualRevenue (premium_count db) (premium_plus_count db))"
  by (simp_all add: compute_metrics_def Let_def)

lemma toFixed2_revenue:
  assumes "p \<le> 10 ^ 10" and "q \<le> 10 ^ 10"
  shows "toFixed2 (monthlyRevenue p q) = decimal_of_cents (499 * p + 999 * q)"
    and "toFixed2 (annualRevenue p q) = decimal_of_cents (12 * (499 * p + 999 * q))"
  using assms by (simp_all only: toFixed2_def revenue_cents show_cents_format decimal_of_cents_def)

text \<open>
  C9. In a metrics report over a store with at most \<open>10^10\<close> premium and at most \<open>10^10\<close>
  premium-plus users, the monthly revenue is the decimal numeral, with exactly two
  fraction digits, of \<open>premiumCount * 4.99 + premiumPlusCount * 9.99\<close> (that is, of
  \<open>499 * premiumCount + 999 * premiumPlusCount\<close> hundredths), and the annual revenue is
  the numeral, with two fraction digits, of twelve times that amount. The two counts are
  the numbers of users whose tier is \<^verbatim>\<open>premium\<close> and \<^verbatim>\<open>premium_plus\<close>. The values are
  computed in binary64 arithmetic and rendered by \<^verbatim>\<open>toFixed(2)\<close>; under the bound the
  accumulated rounding stays below half a hundredth.
\<close>

theorem revenue_estimate:
  assumes "data (response (getDashboardMetrics fl now userId ip db)) = Some m"
    and "premium_count db \<le> 10 ^ 10" and "premium_plus_count db \<le> 10 ^ 10"
  shows "r_premiumUsers (m_revenue m) = premium_count db
     \<and> r_premiumPlusUsers (m_revenue m) = premium_plus_count db
     \<and> r_monthlyRevenue (m_revenue m)
         = decimal_of_cents (499 * premium_count db + 999 * premium_plus_count db)
     \<and> r_annualRevenue (m_revenue m)
         = decimal_of_cents (12 * (499 * premium_count db + 999 * premium_plus_count db))"
proof -
  from assms(1) have m: "m = compute_metrics now db"
    by (rule metrics_data)
  show ?thesis
    unfolding m metrics_revenue toFixed2_revenue [OF assms(2,3)] by simp
qed

lemma decimal_examples:
  "decimal_of_cents (499 * 10 + 999 * 5) = ''99.85''"
  "decimal_of_cents (12 * (499 * 10 + 999 * 5)) = ''1198.20''"
  by (simp_all add: decimal_of_cents_def show_nat.simps digit_chars)

lemma subscribers_admin: "is_admin_caller subscribers 10"
  by (simp add: is_admin_caller_def subscribers_def alice_def)

lemma subscribers_metrics:
  "data (response (getDashboardMetrics no_faults 400 10 ''10.0.0.1'' subscribers))
     = Some (compute_metrics 400 subscribers)"
  by (simp add: getDashboardMetrics_def Let_def succeeded_def subscribers_admin
      parallel_reads_def)

lemma subscribers_counts:
  "premium_count subscribers = 10" "premium_plus_count subscribers = 5"
  by code_simp+

theorem revenue_estimate_witness:
  "data (response (getDashboardMetrics no_faults 400 10 ''10.0.0.1'' subscribers))
     = Some (compute_metrics 400 subscribers)
   \<and> r_premiumUsers (m_revenue (compute_metrics 400 subscribers)) = 10
   \<and> r_premiumPlusUsers (m_revenue (compute_metrics 400 subscribers)) = 5
   \<and> r_monthlyRevenue (m_revenue (compute_metrics 400 subscribers)) = ''99.85''
   \<and> r_annualRevenue (m_revenue (compute_metrics 400 subscribers)) = ''1198.20''"
proof -
  have h2: "premium_count subscribers \<le> 10 ^ 10"
    and h3: "premium_plus_count subscribers \<le> 10 ^ 10"
    by (simp_all add: subscribers_counts)
  note t = revenue_estimate [OF subscribers_metrics h2 h3]
  from t show ?thesis
    by (simp only: subscribers_metrics subscribers_counts decimal_examples simp_thms)
qed

end
